theory Spec2Isabelle
  imports Complex_Main
begin

section \<open>Numbers and vectors\<close>

text \<open>
  The viewer is written in JavaScript (\<^verbatim>\<open>main.js\<close>) and GLSL (\<^verbatim>\<open>shaders.js\<close>).
  The repository also holds an earlier copy of the application, with the shader inline
  and without the overlay plane, the automatic navigation and the brightness boost; its
  handlers, \<^verbatim>\<open>updateZoom\<close>, \<^verbatim>\<open>updatePan\<close> and the rest of the shader are the same
  code. The definitions below follow \<^verbatim>\<open>main.js\<close> and \<^verbatim>\<open>shaders.js\<close>.


  Every number of the program is a floating-point number there; this development reads
  them as real numbers, so \<open>+\<close>, \<open>*\<close> and \<open>/\<close> are exact and there is neither rounding,
  overflow nor NaN. Concrete inputs used below are chosen so that the program's own
  arithmetic takes the same branches.

  A JavaScript object \<^verbatim>\<open>{ x, y }\<close> and a GLSL \<^verbatim>\<open>vec2\<close> are pairs; \<^verbatim>\<open>vec3\<close> and
  \<^verbatim>\<open>vec4\<close> are triples and quadruples.
\<close>

type_synonym vec2 = "real \<times> real"
type_synonym vec3 = "real \<times> real \<times> real"
type_synonym vec4 = "real \<times> real \<times> real \<times> real"

section \<open>Configuration (\<^verbatim>\<open>CONFIG\<close> of main.js)\<close>

record config =
  frustumSize :: real
  zoomStep :: real
  minZoom :: real
  zoomDamping :: real
  panDamping :: real
  planeHeight :: real
  pointSize :: real
  texturePlaneFadeStartZoom :: real
  texturePlaneFadeEndZoom :: real
  brightnessMultiplier :: real
  pointEdgeSoftness :: real
  zoomThreshold :: real
  maxZoomForSizeTransition :: real
  displacementAmount :: real
  displacementStartZoom :: real
  displacementFullZoom :: real
  displacementJitterMagnitude :: real
  displacementJitterSpeed :: real
  brightnessBoost :: real
  brightnessBoostStartZoom :: real
  brightnessBoostEnabled :: bool
  brightnessSteepness :: real
  autoMovementEnabled :: bool
  autoMovementSpeed :: real
  autoMovementEdgeThreshold :: real
  autoMovementEdgeForce :: real
  autoMovementChangeRate :: real
  autoZoomEnabled :: bool
  autoZoomSpeed :: real
  autoZoomSpeedVariability :: real
  autoZoomMinLevel :: real
  autoZoomMaxLevel :: real
  autoZoomChangeRate :: real

definition CONFIG :: config where
  "CONFIG = \<lparr>
     frustumSize = 1,
     zoomStep = 0.02,
     minZoom = 0.1,
     zoomDamping = 0.05,
     panDamping = 0.85,
     planeHeight = 2,
     pointSize = 1.0,
     texturePlaneFadeStartZoom = 4.0,
     texturePlaneFadeEndZoom = 12.0,
     brightnessMultiplier = 8.5,
     pointEdgeSoftness = 0.0,
     zoomThreshold = 1.0,
     maxZoomForSizeTransition = 5.0,
     displacementAmount = 0.005,
     displacementStartZoom = 5.0,
     displacementFullZoom = 1000.0,
     displacementJitterMagnitude = 0.8,
     displacementJitterSpeed = 1.0,
     brightnessBoost = - 0.05,
     brightnessBoostStartZoom = 10.0,
     brightnessBoostEnabled = True,
     brightnessSteepness = 4.0,
     autoMovementEnabled = True,
     autoMovementSpeed = 0.004,
     autoMovementEdgeThreshold = 0.15,
     autoMovementEdgeForce = 0.05,
     autoMovementChangeRate = 0.0005,
     autoZoomEnabled = True,
     autoZoomSpeed = 0.015,
     autoZoomSpeedVariability = 0.2,
     autoZoomMinLevel = 1.0,
     autoZoomMaxLevel = 80.0,
     autoZoomChangeRate = 0.001 \<rparr>"

section \<open>State variables of main.js\<close>

text \<open>
  The module-level variables that the handlers and the per-frame updates read and write.
  The fields of the orthographic camera that the program touches are flattened into the
  record (\<^verbatim>\<open>camera.zoom\<close> is \<open>camera_zoom\<close>, \<^verbatim>\<open>camera.position.x/y\<close> is
  \<open>camera_position\<close>); \<^verbatim>\<open>window.innerWidth\<close> and \<^verbatim>\<open>window.innerHeight\<close> are kept in
  the state as well, since the handlers read them.
\<close>

record state =
  camera_zoom :: real
  camera_position :: vec2
  camera_left :: real
  camera_right :: real
  camera_top :: real
  camera_bottom :: real
  innerWidth :: real
  innerHeight :: real
  isDragging :: bool
  lastMouse :: vec2
  targetZoom :: real
  zoomVelocity :: real
  targetPosition :: vec2
  panVelocity :: vec2
  calculatedPlaneWidth :: real
  autoMovementVector :: vec2
  targetAutoMovementVector :: vec2
  autoZoomDirection :: real
  targetAutoZoomDirection :: real
  autoZoomVelocity :: real
  lastAutoZoomTime :: real

section \<open>Input handlers\<close>

text \<open>A wheel or mouse event: \<^verbatim>\<open>event.clientX\<close>, \<^verbatim>\<open>event.clientY\<close>, \<^verbatim>\<open>event.deltaY\<close>.\<close>

record mouse_event =
  clientX :: real
  clientY :: real
  deltaY :: real

definition mouseNDC :: "mouse_event \<Rightarrow> state \<Rightarrow> vec2" where
  "mouseNDC event s =
     ((clientX event / innerWidth s) * 2 - 1,
      - (clientY event / innerHeight s) * 2 + 1)"

definition mouseWorld :: "mouse_event \<Rightarrow> state \<Rightarrow> vec2" where
  "mouseWorld event s =
     (fst (mouseNDC event s) * (camera_right s - camera_left s) / 2 / camera_zoom s
        + fst (camera_position s),
      snd (mouseNDC event s) * (camera_top s - camera_bottom s) / 2 / camera_zoom s
        + snd (camera_position s))"

definition onWheel :: "config \<Rightarrow> mouse_event \<Rightarrow> state \<Rightarrow> state" where
  "onWheel cfg event s =
     (let direction = sgn (- deltaY event);
          s1 = s\<lparr>zoomVelocity := zoomVelocity s + direction * zoomStep cfg * camera_zoom s\<rparr>;
          zoomFactor = direction * zoomStep cfg
      in s1\<lparr>targetPosition :=
            (fst (targetPosition s1)
               + zoomFactor * (fst (mouseWorld event s) - fst (camera_position s1)),
             snd (targetPosition s1)
               + zoomFactor * (snd (mouseWorld event s) - snd (camera_position s1)))\<rparr>)"

definition onMouseDown :: "mouse_event \<Rightarrow> state \<Rightarrow> state" where
  "onMouseDown event s =
     s\<lparr>isDragging := True,
       lastMouse := (clientX event, clientY event),
       panVelocity := (0, 0)\<rparr>"

definition onMouseUp :: "state \<Rightarrow> state" where
  "onMouseUp s = s\<lparr>isDragging := False\<rparr>"

definition onMouseMove :: "mouse_event \<Rightarrow> state \<Rightarrow> state" where
  "onMouseMove event s =
     (if \<not> isDragging s then s
      else
        let dx = (clientX event - fst (lastMouse s)) / innerWidth s;
            dy = (clientY event - snd (lastMouse s)) / innerHeight s;
            panX = - dx * (camera_right s - camera_left s) / camera_zoom s;
            panY = dy * (camera_top s - camera_bottom s) / camera_zoom s;
            s1 = s\<lparr>camera_position :=
                     (fst (camera_position s) + panX, snd (camera_position s) + panY)\<rparr>;
            s2 = s1\<lparr>targetPosition := camera_position s1\<rparr>
        in s2\<lparr>panVelocity := (panX, panY),
              lastMouse := (clientX event, clientY event)\<rparr>)"

text \<open>
  \<^verbatim>\<open>onResize\<close>: the browser has already changed \<^verbatim>\<open>window.innerWidth/innerHeight\<close>
  (the arguments \<open>w\<close> and \<open>h\<close>); the handler recomputes the frustum from them.
\<close>

definition onResize :: "config \<Rightarrow> real \<Rightarrow> real \<Rightarrow> state \<Rightarrow> state" where
  "onResize cfg w h s =
     (let aspect = w / h
      in s\<lparr>innerWidth := w, innerHeight := h,
           camera_left := - frustumSize cfg * aspect,
           camera_right := frustumSize cfg * aspect,
           camera_top := frustumSize cfg,
           camera_bottom := - frustumSize cfg\<rparr>)"

section \<open>Per-frame updates\<close>

definition updateZoom :: "config \<Rightarrow> state \<Rightarrow> state" where
  "updateZoom cfg s =
     (let s1 = (if \<bar>zoomVelocity s\<bar> > 0.0001 then
                  let s2 = s\<lparr>targetZoom := targetZoom s + zoomVelocity s\<rparr>;
                      s3 = (if targetZoom s2 < minZoom cfg
                            then s2\<lparr>targetZoom := minZoom cfg, zoomVelocity := 0\<rparr>
                            else s2)
                  in s3\<lparr>zoomVelocity := zoomVelocity s3 * zoomDamping cfg\<rparr>
                else s\<lparr>zoomVelocity := 0\<rparr>);
          s4 = s1\<lparr>camera_zoom := camera_zoom s1 + (targetZoom s1 - camera_zoom s1) * 0.2\<rparr>;
          s5 = s4\<lparr>camera_zoom := max (minZoom cfg) (camera_zoom s4)\<rparr>
      in s5\<lparr>camera_position :=
            (fst (camera_position s5)
               + (fst (targetPosition s5) - fst (camera_position s5)) * 0.2,
             snd (camera_position s5)
               + (snd (targetPosition s5) - snd (camera_position s5)) * 0.2)\<rparr>)"

definition updatePan :: "config \<Rightarrow> state \<Rightarrow> state" where
  "updatePan cfg s =
     (if \<not> isDragging s \<and>
         (\<bar>fst (panVelocity s)\<bar> > 0.00001 \<or> \<bar>snd (panVelocity s)\<bar> > 0.00001) then
        let s1 = s\<lparr>targetPosition :=
                     (fst (targetPosition s) + fst (panVelocity s),
                      snd (targetPosition s) + snd (panVelocity s))\<rparr>
        in s1\<lparr>panVelocity :=
              (fst (panVelocity s1) * panDamping cfg, snd (panVelocity s1) * panDamping cfg)\<rparr>
      else if \<not> isDragging s then s\<lparr>panVelocity := (0, 0)\<rparr>
      else s)"

text \<open>
  \<^verbatim>\<open>updateAutoMovement\<close> draws from \<^verbatim>\<open>Math.random()\<close> once, and a second time when the
  first draw is below the change rate; the two draws are the arguments \<open>r\<close> and \<open>r'\<close>.
  The body is a sequence of five commented blocks; each block is a function of its own
  here, named after its comment, and \<open>updateAutoMovement\<close> runs them in order.
\<close>

text \<open>Occasionally change the target direction.\<close>

definition autoMovement_changeDirection :: "config \<Rightarrow> real \<Rightarrow> real \<Rightarrow> state \<Rightarrow> state" where
  "autoMovement_changeDirection cfg r r' s =
     (if r < autoMovementChangeRate cfg
      then let angle = r' * pi * 2
           in s\<lparr>targetAutoMovementVector := (cos angle, sin angle)\<rparr>
      else s)"

text \<open>Smooth out changes with interpolation.\<close>

definition autoMovement_smooth :: "state \<Rightarrow> state" where
  "autoMovement_smooth s =
     (let smoothingFactor = 0.1
      in s\<lparr>autoMovementVector :=
            (fst (autoMovementVector s)
               + (fst (targetAutoMovementVector s) - fst (autoMovementVector s)) * smoothingFactor,
             snd (autoMovementVector s)
               + (snd (targetAutoMovementVector s) - snd (autoMovementVector s)) * smoothingFactor)\<rparr>)"

text \<open>Check if approaching edges and steer back toward the mesh.\<close>

definition autoMovement_steer :: "config \<Rightarrow> state \<Rightarrow> state" where
  "autoMovement_steer cfg s =
     (let visibleWidth = (camera_right s - camera_left s) / camera_zoom s;
          visibleHeight = (camera_top s - camera_bottom s) / camera_zoom s;
          maxX = calculatedPlaneWidth s / 2 - visibleWidth * autoMovementEdgeThreshold cfg;
          minX = - calculatedPlaneWidth s / 2 + visibleWidth * autoMovementEdgeThreshold cfg;
          maxY = planeHeight cfg / 2 - visibleHeight * autoMovementEdgeThreshold cfg;
          minY = - planeHeight cfg / 2 + visibleHeight * autoMovementEdgeThreshold cfg;
          edgeMomentumFactor = autoMovementEdgeForce cfg * 2;
          vx1 = (if fst (camera_position s) > maxX
                 then fst (autoMovementVector s)
                        - edgeMomentumFactor * (fst (camera_position s) - maxX)
                 else fst (autoMovementVector s));
          vx2 = (if fst (camera_position s) < minX
                 then vx1 + edgeMomentumFactor * (minX - fst (camera_position s))
                 else vx1);
          vy1 = (if snd (camera_position s) > maxY
                 then snd (autoMovementVector s)
                        - edgeMomentumFactor * (snd (camera_position s) - maxY)
                 else snd (autoMovementVector s));
          vy2 = (if snd (camera_position s) < minY
                 then vy1 + edgeMomentumFactor * (minY - snd (camera_position s))
                 else vy1)
      in s\<lparr>autoMovementVector := (vx2, vy2)\<rparr>)"

text \<open>Normalize the vector to maintain consistent speed.\<close>

definition autoMovement_normalize :: "state \<Rightarrow> state" where
  "autoMovement_normalize s =
     (let len = sqrt (fst (autoMovementVector s) * fst (autoMovementVector s)
                      + snd (autoMovementVector s) * snd (autoMovementVector s))
      in if len > 0
         then s\<lparr>autoMovementVector :=
                 (fst (autoMovementVector s) / len, snd (autoMovementVector s) / len)\<rparr>
         else s)"

text \<open>Apply movement to target position.\<close>

definition autoMovement_apply :: "config \<Rightarrow> state \<Rightarrow> state" where
  "autoMovement_apply cfg s =
     (let scaledSpeed = autoMovementSpeed cfg / camera_zoom s
      in s\<lparr>targetPosition :=
            (fst (targetPosition s) + fst (autoMovementVector s) * scaledSpeed,
             snd (targetPosition s) + snd (autoMovementVector s) * scaledSpeed)\<rparr>)"

definition updateAutoMovement :: "config \<Rightarrow> real \<Rightarrow> real \<Rightarrow> state \<Rightarrow> state" where
  "updateAutoMovement cfg r r' s =
     (if \<not> autoMovementEnabled cfg \<or> isDragging s then s
      else autoMovement_apply cfg
             (autoMovement_normalize
               (autoMovement_steer cfg
                 (autoMovement_smooth
                   (autoMovement_changeDirection cfg r r' s)))))"

text \<open>
  \<^verbatim>\<open>updateAutoZoom\<close> draws from \<^verbatim>\<open>Math.random()\<close> once (\<open>r\<close>) and reads
  \<^verbatim>\<open>Date.now()\<close> three times (\<open>now1\<close>, \<open>now2\<close>, \<open>now3\<close>, in the order of the calls).
  Its commented blocks are functions of their own as well.
\<close>

text \<open>Occasionally change the zoom direction.\<close>

definition autoZoom_changeDirection :: "config \<Rightarrow> real \<Rightarrow> state \<Rightarrow> state" where
  "autoZoom_changeDirection cfg r s =
     (if r < autoZoomChangeRate cfg
      then s\<lparr>targetAutoZoomDirection := - targetAutoZoomDirection s\<rparr>
      else s)"

text \<open>Smooth direction changes with interpolation.\<close>

definition autoZoom_smooth :: "state \<Rightarrow> state" where
  "autoZoom_smooth s =
     (let smoothingFactor = 0.1
      in s\<lparr>autoZoomDirection :=
            autoZoomDirection s
              + (targetAutoZoomDirection s - autoZoomDirection s) * smoothingFactor\<rparr>)"

text \<open>If we hit a limit, reverse direction.\<close>

definition autoZoom_limits :: "config \<Rightarrow> state \<Rightarrow> state" where
  "autoZoom_limits cfg s =
     (if (camera_zoom s \<ge> autoZoomMaxLevel cfg \<and> autoZoomDirection s > 0) \<or>
         (camera_zoom s \<le> autoZoomMinLevel cfg \<and> autoZoomDirection s < 0)
      then s\<lparr>targetAutoZoomDirection := - targetAutoZoomDirection s\<rparr>
      else s)"

text \<open>
  Apply speed variability with time-based randomness, update the zoom velocity and
  apply it to the target zoom.
\<close>

definition autoZoom_velocity :: "config \<Rightarrow> real \<Rightarrow> real \<Rightarrow> real \<Rightarrow> state \<Rightarrow> state" where
  "autoZoom_velocity cfg now1 now2 now3 s =
     (let timeDelta = (now1 - lastAutoZoomTime s) / 1000;
          zoomVariability = 1 + (sin (now3 * 0.001) * autoZoomSpeedVariability cfg);
          normalizedZoomSpeed = autoZoomSpeed cfg * zoomVariability / camera_zoom s;
          variableZoomSpeed = normalizedZoomSpeed * timeDelta * 60;
          autoZoomVelocity' = autoZoomDirection s * variableZoomSpeed
      in s\<lparr>lastAutoZoomTime := now2,
           autoZoomVelocity := autoZoomVelocity',
           targetZoom := targetZoom s + autoZoomVelocity'\<rparr>)"

text \<open>Ensure zoom stays within defined limits.\<close>

definition autoZoom_clamp :: "config \<Rightarrow> state \<Rightarrow> state" where
  "autoZoom_clamp cfg s =
     s\<lparr>targetZoom := max (autoZoomMinLevel cfg) (min (autoZoomMaxLevel cfg) (targetZoom s))\<rparr>"

definition updateAutoZoom ::
  "config \<Rightarrow> real \<Rightarrow> real \<Rightarrow> real \<Rightarrow> real \<Rightarrow> state \<Rightarrow> state" where
  "updateAutoZoom cfg r now1 now2 now3 s =
     (if \<not> autoZoomEnabled cfg \<or> isDragging s then s
      else autoZoom_clamp cfg
             (autoZoom_velocity cfg now1 now2 now3
               (autoZoom_limits cfg
                 (autoZoom_smooth
                   (autoZoom_changeDirection cfg r s)))))"

section \<open>Initialisation\<close>

text \<open>
  The state after \<^verbatim>\<open>init\<close>, for a window of \<open>w\<close> by \<open>h\<close> pixels: \<^verbatim>\<open>setupCamera\<close>
  (a new orthographic camera has zoom \<open>1\<close>), \<^verbatim>\<open>initializeAutoMovement\<close> with the draw
  \<open>r\<close>, \<^verbatim>\<open>initializeAutoZoom\<close> with the draw \<open>r'\<close>, and the clock value \<open>now\<close>.
\<close>

definition init :: "config \<Rightarrow> real \<Rightarrow> real \<Rightarrow> real \<Rightarrow> real \<Rightarrow> real \<Rightarrow> state" where
  "init cfg w h r r' now =
     (let aspect = w / h;
          angle = r * pi * 2;
          direction = (if r' > 0.5 then 1 else - 1)
      in \<lparr> camera_zoom = 1,
           camera_position = (0, 0),
           camera_left = - frustumSize cfg * aspect,
           camera_right = frustumSize cfg * aspect,
           camera_top = frustumSize cfg,
           camera_bottom = - frustumSize cfg,
           innerWidth = w,
           innerHeight = h,
           isDragging = False,
           lastMouse = (0, 0),
           targetZoom = 1,
           zoomVelocity = 0,
           targetPosition = (0, 0),
           panVelocity = (0, 0),
           calculatedPlaneWidth = 0,
           autoMovementVector = (cos angle, sin angle),
           targetAutoMovementVector = (cos angle, sin angle),
           autoZoomDirection = direction,
           targetAutoZoomDirection = direction,
           autoZoomVelocity = 0,
           lastAutoZoomTime = now \<rparr>)"

section \<open>Inputs and traces\<close>

text \<open>
  Everything that can happen to the camera state after initialisation: one of the four
  per-frame updates, or one of the event handlers. The arguments of the two automatic
  updates are the values drawn from \<^verbatim>\<open>Math.random()\<close> and read from \<^verbatim>\<open>Date.now()\<close>.
\<close>

datatype input =
    UpdateZoom
  | UpdatePan
  | UpdateAutoMovement real real
  | UpdateAutoZoom real real real real
  | Wheel mouse_event
  | MouseDown mouse_event
  | MouseUp
  | MouseMove mouse_event
  | Resize real real

fun step :: "config \<Rightarrow> input \<Rightarrow> state \<Rightarrow> state" where
  "step cfg UpdateZoom s = updateZoom cfg s"
| "step cfg UpdatePan s = updatePan cfg s"
| "step cfg (UpdateAutoMovement r r') s = updateAutoMovement cfg r r' s"
| "step cfg (UpdateAutoZoom r now1 now2 now3) s = updateAutoZoom cfg r now1 now2 now3 s"
| "step cfg (Wheel event) s = onWheel cfg event s"
| "step cfg (MouseDown event) s = onMouseDown event s"
| "step cfg MouseUp s = onMouseUp s"
| "step cfg (MouseMove event) s = onMouseMove event s"
| "step cfg (Resize w h) s = onResize cfg w h s"

fun run :: "config \<Rightarrow> input list \<Rightarrow> state \<Rightarrow> state" where
  "run cfg [] s = s"
| "run cfg (i # is) s = run cfg is (step cfg i s)"

text \<open>The camera part of \<^verbatim>\<open>animate\<close>: the four updates, in the order of the source.\<close>

definition animate_camera ::
  "config \<Rightarrow> real \<Rightarrow> real \<Rightarrow> real \<Rightarrow> real \<Rightarrow> real \<Rightarrow> real \<Rightarrow> state \<Rightarrow> state" where
  "animate_camera cfg r r' r'' now1 now2 now3 s =
     run cfg [UpdateZoom, UpdatePan, UpdateAutoMovement r r',
              UpdateAutoZoom r'' now1 now2 now3] s"

text \<open>\<open>n\<close> consecutive calls of \<^verbatim>\<open>updateZoom\<close> with nothing in between.\<close>

fun updateZoom_ticks :: "config \<Rightarrow> nat \<Rightarrow> state \<Rightarrow> state" where
  "updateZoom_ticks cfg 0 s = s"
| "updateZoom_ticks cfg (Suc n) s = updateZoom cfg (updateZoom_ticks cfg n s)"

section \<open>Shader uniforms and what \<^verbatim>\<open>animate\<close> pushes into them\<close>

text \<open>
  The uniforms of the point material. \<^verbatim>\<open>displacementHalfwayZoom\<close> is declared by the
  shader but never read by it (and \<^verbatim>\<open>CONFIG\<close> has no such entry), so it is left out.
\<close>

record uniforms =
  u_basePointSize :: real
  u_brightnessMultiplier :: real
  u_minPointSize :: real
  u_displacementAmount :: real
  u_seed :: real
  u_cameraZoom :: real
  u_screenWidth :: real
  u_screenHeight :: real
  u_imageWidth :: real
  u_imageHeight :: real
  u_planeWidth :: real
  u_planeHeight :: real
  u_zoomThreshold :: real
  u_maxZoomForSizeTransition :: real
  u_displacementStartZoom :: real
  u_displacementFullZoom :: real
  u_time :: real
  u_displacementJitterMagnitude :: real
  u_displacementJitterSpeed :: real
  u_brightnessBoost :: real
  u_brightnessSteepness :: real
  u_pointEdgeSoftness :: real

text \<open>
  The uniforms as \<^verbatim>\<open>loadImage\<close> creates them for an image of \<open>width\<close> by \<open>height\<close>
  pixels; \<open>r\<close> is the \<^verbatim>\<open>Math.random()\<close> draw behind the seed.
\<close>

definition loadImage_uniforms :: "config \<Rightarrow> real \<Rightarrow> nat \<Rightarrow> nat \<Rightarrow> state \<Rightarrow> uniforms" where
  "loadImage_uniforms cfg r width height s =
     (let imageAspect = real width / real height;
          calculatedPlaneWidth' = planeHeight cfg * imageAspect
      in \<lparr> u_basePointSize = pointSize cfg,
           u_brightnessMultiplier = brightnessMultiplier cfg,
           u_minPointSize = pointSize cfg * 0.8,
           u_displacementAmount = displacementAmount cfg,
           u_seed = r * 100,
           u_cameraZoom = camera_zoom s,
           u_screenWidth = innerWidth s,
           u_screenHeight = innerHeight s,
           u_imageWidth = real width,
           u_imageHeight = real height,
           u_planeWidth = calculatedPlaneWidth',
           u_planeHeight = planeHeight cfg,
           u_zoomThreshold = zoomThreshold cfg,
           u_maxZoomForSizeTransition = maxZoomForSizeTransition cfg,
           u_displacementStartZoom = displacementStartZoom cfg,
           u_displacementFullZoom = displacementFullZoom cfg,
           u_time = 0.0,
           u_displacementJitterMagnitude = displacementJitterMagnitude cfg,
           u_displacementJitterSpeed = displacementJitterSpeed cfg,
           u_brightnessBoost = brightnessBoost cfg,
           u_brightnessSteepness = brightnessSteepness cfg,
           u_pointEdgeSoftness = pointEdgeSoftness cfg \<rparr>)"

text \<open>The local \<^verbatim>\<open>boostFactor\<close> of \<^verbatim>\<open>animate\<close>, as a function of \<^verbatim>\<open>camera.zoom\<close>.\<close>

definition boostFactor :: "config \<Rightarrow> real \<Rightarrow> real" where
  "boostFactor cfg zoom =
     (let boostStart = brightnessBoostStartZoom cfg;
          boostEnd = maxZoomForSizeTransition cfg
      in if zoom > boostStart
         then min 1 ((zoom - boostStart) / (boostEnd - boostStart))
         else 0.0)"

definition animate_uniforms :: "config \<Rightarrow> state \<Rightarrow> uniforms \<Rightarrow> uniforms" where
  "animate_uniforms cfg s u =
     u\<lparr>u_cameraZoom := camera_zoom s,
       u_screenWidth := innerWidth s,
       u_screenHeight := innerHeight s,
       u_zoomThreshold := zoomThreshold cfg,
       u_maxZoomForSizeTransition := maxZoomForSizeTransition cfg,
       u_displacementStartZoom := displacementStartZoom cfg,
       u_displacementFullZoom := displacementFullZoom cfg,
       u_time := u_time u + 0.016,
       u_displacementJitterMagnitude := displacementJitterMagnitude cfg,
       u_displacementJitterSpeed := displacementJitterSpeed cfg,
       u_brightnessBoost :=
         (if brightnessBoostEnabled cfg
          then brightnessBoost cfg * boostFactor cfg (camera_zoom s)
          else 0.0)\<rparr>"

text \<open>The uniforms after \<open>n\<close> frames, the camera state of each frame taken from \<open>cam\<close>.\<close>

fun uniforms_after :: "config \<Rightarrow> (nat \<Rightarrow> state) \<Rightarrow> nat \<Rightarrow> uniforms \<Rightarrow> uniforms" where
  "uniforms_after cfg cam 0 u = u"
| "uniforms_after cfg cam (Suc n) u = animate_uniforms cfg (cam n) (uniforms_after cfg cam n u)"

section \<open>The overlay plane\<close>

record texturePlaneMesh =
  opacity :: real
  visible :: bool

definition animate_texturePlane :: "config \<Rightarrow> real \<Rightarrow> texturePlaneMesh" where
  "animate_texturePlane cfg zoom =
     (let startFade = texturePlaneFadeStartZoom cfg;
          endFade = texturePlaneFadeEndZoom cfg
      in if zoom < startFade then \<lparr> opacity = 1.0, visible = True \<rparr>
         else if zoom > endFade then \<lparr> opacity = 0.0, visible = False \<rparr>
         else
           let opacity' = 1.0 - (zoom - startFade) / (endFade - startFade);
               clamped = max 0 (min 1 opacity')
           in \<lparr> opacity = clamped, visible = (clamped > 0.001) \<rparr>)"

section \<open>The point samples built by \<^verbatim>\<open>loadImage\<close>\<close>

text \<open>One sample per pixel: its position attribute and its uv attribute.\<close>

definition pointSample :: "config \<Rightarrow> real \<Rightarrow> nat \<Rightarrow> nat \<Rightarrow> nat \<Rightarrow> nat \<Rightarrow> vec3 \<times> vec2" where
  "pointSample cfg planeWidth numPointsX numPointsY ix iy =
     (let u = (real ix + 0.5) / real numPointsX;
          v = (real iy + 0.5) / real numPointsY;
          x = (u - 0.5) * planeWidth;
          y = (v - 0.5) * planeHeight cfg
      in ((x, y, 0), (u, v)))"

definition pointSamples :: "config \<Rightarrow> nat \<Rightarrow> nat \<Rightarrow> (vec3 \<times> vec2) list" where
  "pointSamples cfg width height =
     (let imageAspect = real width / real height;
          calculatedPlaneWidth' = planeHeight cfg * imageAspect
      in concat (map (\<lambda>iy. map (\<lambda>ix. pointSample cfg calculatedPlaneWidth' width height ix iy)
                                [0..<width])
                     [0..<height]))"

section \<open>The vertex shader\<close>

text \<open>
  The GLSL built-ins the shader uses. \<^verbatim>\<open>pow(x, y)\<close> is defined by GLSL for \<open>x > 0\<close>, and
  for \<open>x = 0\<close> with \<open>y > 0\<close> (where it is \<open>0\<close>); \<open>powr\<close> agrees with it there.
\<close>

definition clamp :: "real \<Rightarrow> real \<Rightarrow> real \<Rightarrow> real" where
  "clamp x minVal maxVal = min (max x minVal) maxVal"

definition mix :: "real \<Rightarrow> real \<Rightarrow> real \<Rightarrow> real" where
  "mix x y a = x * (1 - a) + y * a"

definition fract :: "real \<Rightarrow> real" where
  "fract x = x - of_int \<lfloor>x\<rfloor>"

definition pow :: "real \<Rightarrow> real \<Rightarrow> real" where
  "pow x y = x powr y"

fun dot2 :: "vec2 \<Rightarrow> vec2 \<Rightarrow> real" where
  "dot2 (a1, a2) (b1, b2) = a1 * b1 + a2 * b2"

fun dot3 :: "vec3 \<Rightarrow> vec3 \<Rightarrow> real" where
  "dot3 (a1, a2, a3) (b1, b2, b3) = a1 * b1 + a2 * b2 + a3 * b3"

fun rgb :: "vec4 \<Rightarrow> vec3" where
  "rgb (r, g, b, a) = (r, g, b)"

fun xy :: "vec3 \<Rightarrow> vec2" where
  "xy (px, py, pz) = (px, py)"

definition random :: "uniforms \<Rightarrow> vec2 \<Rightarrow> real" where
  "random u st = fract (sin (dot2 st (12.9898, 78.233) + u_seed u) * 43758.5453123)"

text \<open>The locals of \<^verbatim>\<open>main\<close>, each under its own name.\<close>

definition brightness :: "vec4 \<Rightarrow> real" where
  "brightness vColor = dot3 (rgb vColor) (0.299, 0.587, 0.114)"

definition brightenFactor :: "uniforms \<Rightarrow> real" where
  "brightenFactor u = clamp (u_brightnessBoost u) 0.0 1.0"

definition impact :: "uniforms \<Rightarrow> vec4 \<Rightarrow> real" where
  "impact u vColor =
     (let darkness = 1.0 - brightness vColor
      in pow darkness (u_brightnessSteepness u) * brightenFactor u)"

fun mix_white :: "vec4 \<Rightarrow> real \<Rightarrow> vec4" where
  "mix_white (r, g, b, a) t = (mix r 1.0 t, mix g 1.0 t, mix b 1.0 t, a)"

definition totalPoints :: "uniforms \<Rightarrow> real" where
  "totalPoints u = u_imageWidth u * u_imageHeight u"

definition visiblePixels :: "uniforms \<Rightarrow> real" where
  "visiblePixels u =
     (u_planeWidth u * u_planeHeight u * u_cameraZoom u * u_cameraZoom u
        * u_screenWidth u * u_screenHeight u) / 4.0"

definition samplingRate :: "uniforms \<Rightarrow> real" where
  "samplingRate u = min 1.0 (visiblePixels u / totalPoints u)"

definition pointId :: "uniforms \<Rightarrow> vec2 \<Rightarrow> real" where
  "pointId u vUv = random u vUv"

definition discarded :: "uniforms \<Rightarrow> vec2 \<Rightarrow> bool" where
  "discarded u vUv = (pointId u vUv > samplingRate u)"

definition zoomFactor :: "uniforms \<Rightarrow> real" where
  "zoomFactor u =
     clamp ((u_cameraZoom u - u_zoomThreshold u)
              / (u_maxZoomForSizeTransition u - u_zoomThreshold u)) 0.0 1.0"

definition displacementFactor :: "uniforms \<Rightarrow> real" where
  "displacementFactor u =
     clamp ((u_cameraZoom u - u_displacementStartZoom u)
              / (u_displacementFullZoom u - u_displacementStartZoom u)) 0.0 1.0"

definition pointSizeOut :: "uniforms \<Rightarrow> vec4 \<Rightarrow> real" where
  "pointSizeOut u vColor =
     (let uniformSize = u_minPointSize u;
          brightnessBasedSize =
            u_minPointSize u + (u_basePointSize u * brightness vColor * u_brightnessMultiplier u);
          sizeBeforeCompensation = mix uniformSize brightnessBasedSize (zoomFactor u);
          densityCompensation = sqrt (1.0 / max 0.01 (samplingRate u))
      in sizeBeforeCompensation * densityCompensation)"

fun randX :: "uniforms \<Rightarrow> vec3 \<Rightarrow> real" where
  "randX u (px, py, pz) = random u (px + 0.1, py + 0.3) * 2.0 - 1.0"

fun randY :: "uniforms \<Rightarrow> vec3 \<Rightarrow> real" where
  "randY u (px, py, pz) = random u (px + 0.6, py + 0.9) * 2.0 - 1.0"

definition pointSpecificPhaseOffset :: "uniforms \<Rightarrow> vec3 \<Rightarrow> real" where
  "pointSpecificPhaseOffset u position = random u (xy position) * 2.0 * 3.1415926535"

definition finalScaledDisplacement :: "uniforms \<Rightarrow> vec3 \<Rightarrow> real" where
  "finalScaledDisplacement u position =
     (let scaledDisplacement = u_displacementAmount u * displacementFactor u * 5.0;
          displacementOscillation =
            1.0 + sin (u_time u * u_displacementJitterSpeed u
                        + pointSpecificPhaseOffset u position)
                  * u_displacementJitterMagnitude u
      in scaledDisplacement
           * (if displacementFactor u > 0.0 then displacementOscillation else 1.0))"

fun displacedPosition :: "uniforms \<Rightarrow> vec3 \<Rightarrow> vec3" where
  "displacedPosition u (px, py, pz) =
     (px + randX u (px, py, pz) * finalScaledDisplacement u (px, py, pz),
      py + randY u (px, py, pz) * finalScaledDisplacement u (px, py, pz),
      pz + 0.0)"

text \<open>
  The outputs of one invocation. A discarded point returns before \<^verbatim>\<open>gl_PointSize\<close>
  is written. \<open>texture2D\<close> is the texture lookup and \<open>transform\<close> the product
  \<^verbatim>\<open>projectionMatrix * modelViewMatrix\<close> applied to a \<^verbatim>\<open>vec4\<close>.
\<close>

record vs_out =
  vUv :: vec2
  vColor :: vec4
  gl_Position :: vec4
  gl_PointSize :: "real option"

fun vec4_of :: "vec3 \<Rightarrow> real \<Rightarrow> vec4" where
  "vec4_of (px, py, pz) w = (px, py, pz, w)"

definition vertexShader ::
  "uniforms \<Rightarrow> (vec2 \<Rightarrow> vec4) \<Rightarrow> (vec4 \<Rightarrow> vec4) \<Rightarrow> vec3 \<Rightarrow> vec2 \<Rightarrow> vs_out" where
  "vertexShader u texture2D transform position uv =
     (let vUv' = uv;
          vColor0 = texture2D vUv';
          vColor' = mix_white vColor0 (impact u vColor0)
      in if discarded u vUv'
         then \<lparr> vUv = vUv', vColor = vColor',
                gl_Position = (2.0, 2.0, 2.0, 1.0), gl_PointSize = None \<rparr>
         else \<lparr> vUv = vUv', vColor = vColor',
                gl_Position = transform (vec4_of (displacedPosition u position) 1.0),
                gl_PointSize = Some (pointSizeOut u vColor0) \<rparr>)"

section \<open>Example inputs\<close>

text \<open>
  A window of 1000 by 500 pixels, the first random draw \<open>0\<close> (drift along \<open>+x\<close>), the
  second \<open>0\<close> (auto-zoom direction \<open>-1\<close>), clock \<open>0\<close>.
\<close>

definition example_state :: state where
  "example_state = init CONFIG 1000 500 0 0 0"


text \<open>
  The uniforms \<^verbatim>\<open>loadImage\<close> creates for an image of 4 by 2 pixels in that window,
  with the seed draw \<open>1/2\<close>.
\<close>

definition example_uniforms :: uniforms where
  "example_uniforms = loadImage_uniforms CONFIG (1/2) 4 2 example_state"


text \<open>
  Two zoom-in wheel events in that window: one with the cursor at the centre of the
  screen, one with the cursor to the upper right of it.
\<close>

definition example_wheel_center :: mouse_event where
  "example_wheel_center = \<lparr> clientX = 500, clientY = 250, deltaY = - 100 \<rparr>"

definition example_wheel_corner :: mouse_event where
  "example_wheel_corner = \<lparr> clientX = 750, clientY = 125, deltaY = - 100 \<rparr>"


text \<open>
  The uniforms of a frame drawn at a given camera zoom; a configuration whose boost
  range is ordered (start \<open>2\<close>, end \<open>5\<close>) with boost strength \<open>1\<close>, and the uniforms of
  a frame drawn with it at zoom \<open>7/2\<close>.
\<close>

definition example_uniforms_zoom :: "real \<Rightarrow> uniforms" where
  "example_uniforms_zoom zoom =
     animate_uniforms CONFIG (example_state\<lparr>camera_zoom := zoom\<rparr>) example_uniforms"

definition example_config_ramp :: config where
  "example_config_ramp = CONFIG\<lparr>brightnessBoostStartZoom := 2, brightnessBoost := 1\<rparr>"

definition example_uniforms_ramp :: uniforms where
  "example_uniforms_ramp =
     animate_uniforms example_config_ramp (example_state\<lparr>camera_zoom := 7 / 2\<rparr>) example_uniforms"

text \<open>The initial state with a zoom velocity of \<open>0.02\<close> (zoom and target zoom are \<open>1\<close>).\<close>

definition example_state_impulse :: state where
  "example_state_impulse = example_state\<lparr>zoomVelocity := 0.02\<rparr>"


section \<open>The camera zoom never falls below \<open>minZoom\<close>\<close>

lemma updateZoom_camera_zoom_ge: "minZoom cfg \<le> camera_zoom (updateZoom cfg s)"
  by (simp add: updateZoom_def Let_def)

lemma updateZoom_camera_zoom:
  "camera_zoom (updateZoom cfg s) =
     max (minZoom cfg) (camera_zoom s + (targetZoom (updateZoom cfg s) - camera_zoom s) * 0.2)"
  by (simp add: updateZoom_def Let_def)

lemma updateZoom_targetZoom:
  "targetZoom (updateZoom cfg s) =
     (if \<bar>zoomVelocity s\<bar> > 0.0001 then max (minZoom cfg) (targetZoom s + zoomVelocity s)
      else targetZoom s)"
  by (simp add: updateZoom_def Let_def max_def)

lemma updateZoom_zoomVelocity:
  "zoomVelocity (updateZoom cfg s) =
     (if \<bar>zoomVelocity s\<bar> > 0.0001 then
        (if targetZoom s + zoomVelocity s < minZoom cfg then 0
         else zoomVelocity s * zoomDamping cfg)
      else 0)"
  by (simp add: updateZoom_def Let_def)

lemma updatePan_camera_zoom: "camera_zoom (updatePan cfg s) = camera_zoom s"
  by (simp add: updatePan_def Let_def)

lemma updateAutoMovement_camera_zoom: "camera_zoom (updateAutoMovement cfg r r' s) = camera_zoom s"
  by (simp add: updateAutoMovement_def autoMovement_apply_def autoMovement_normalize_def
        autoMovement_steer_def autoMovement_smooth_def autoMovement_changeDirection_def Let_def)

lemma updateAutoZoom_camera_zoom:
  "camera_zoom (updateAutoZoom cfg r now1 now2 now3 s) = camera_zoom s"
  by (simp add: updateAutoZoom_def autoZoom_clamp_def autoZoom_velocity_def autoZoom_limits_def
        autoZoom_smooth_def autoZoom_changeDirection_def Let_def)

lemma onWheel_camera_zoom: "camera_zoom (onWheel cfg event s) = camera_zoom s"
  by (simp add: onWheel_def Let_def)

lemma onMouseMove_camera_zoom: "camera_zoom (onMouseMove event s) = camera_zoom s"
  by (simp add: onMouseMove_def Let_def)

lemma step_camera_zoom_ge:
  "minZoom cfg \<le> camera_zoom s \<Longrightarrow> minZoom cfg \<le> camera_zoom (step cfg i s)"
  by (cases i)
     (simp_all add: updateZoom_camera_zoom_ge updatePan_camera_zoom
        updateAutoMovement_camera_zoom updateAutoZoom_camera_zoom onWheel_camera_zoom
        onMouseMove_camera_zoom onMouseDown_def onMouseUp_def onResize_def Let_def)

lemma run_camera_zoom_ge:
  "minZoom cfg \<le> camera_zoom s \<Longrightarrow> minZoom cfg \<le> camera_zoom (run cfg is s)"
  by (induction "is" arbitrary: s) (simp_all add: step_camera_zoom_ge)

lemma run_append: "run cfg (is @ js) s = run cfg js (run cfg is s)"
  by (induction "is" arbitrary: s) simp_all

text \<open>
  Claim C1. In every trace of per-frame updates and input events, in any order and with
  any random draws and clock values, the camera zoom is at least \<open>minZoom\<close> from the
  first \<open>updateZoom\<close> on (and throughout, when it starts there). \<open>updateZoom\<close> clamps
  the integrated target zoom at \<open>minZoom\<close>, zeroes the zoom velocity when that clamp
  applies, and clamps the blended camera zoom at \<open>minZoom\<close>.
\<close>

theorem C1_zoom_at_least_minZoom:
  "(UpdateZoom \<in> set is \<longrightarrow> minZoom cfg \<le> camera_zoom (run cfg is s))
   \<and> (minZoom cfg \<le> camera_zoom s \<longrightarrow> minZoom cfg \<le> camera_zoom (run cfg is s))
   \<and> targetZoom (updateZoom cfg s) =
        (if \<bar>zoomVelocity s\<bar> > 0.0001
         then max (minZoom cfg) (targetZoom s + zoomVelocity s) else targetZoom s)
   \<and> (\<bar>zoomVelocity s\<bar> > 0.0001 \<and> targetZoom s + zoomVelocity s < minZoom cfg
        \<longrightarrow> zoomVelocity (updateZoom cfg s) = 0)
   \<and> camera_zoom (updateZoom cfg s) =
        max (minZoom cfg)
          (camera_zoom s + (targetZoom (updateZoom cfg s) - camera_zoom s) * 0.2)"
proof -
  have "minZoom cfg \<le> camera_zoom (run cfg is s)" if "UpdateZoom \<in> set is"
  proof -
    from that obtain pre post where "is = pre @ UpdateZoom # post"
      by (auto dest: split_list)
    then have "run cfg is s = run cfg post (updateZoom cfg (run cfg pre s))"
      by (simp add: run_append)
    then show ?thesis
      by (simp add: run_camera_zoom_ge updateZoom_camera_zoom_ge)
  qed
  moreover have "\<bar>zoomVelocity s\<bar> > 0.0001 \<and> targetZoom s + zoomVelocity s < minZoom cfg
        \<longrightarrow> zoomVelocity (updateZoom cfg s) = 0"
    by (simp add: updateZoom_zoomVelocity)
  ultimately show ?thesis
    using run_camera_zoom_ge [of cfg s "is"] updateZoom_targetZoom [of cfg s]
      updateZoom_camera_zoom [of cfg s]
    by blast
qed

theorem C1_zoom_at_least_minZoom_witness:
  "UpdateZoom \<in> set [Wheel \<lparr>clientX = 10, clientY = 20, deltaY = 3\<rparr>, UpdateZoom, UpdatePan]
   \<and> minZoom CONFIG \<le> camera_zoom example_state
   \<and> minZoom CONFIG \<le>
       camera_zoom (run CONFIG [Wheel \<lparr>clientX = 10, clientY = 20, deltaY = 3\<rparr>,
                                UpdateZoom, UpdatePan]
                      (example_state\<lparr>zoomVelocity := - 1\<rparr>))
   \<and> \<bar>zoomVelocity (example_state\<lparr>zoomVelocity := - 1\<rparr>)\<bar> > 0.0001
   \<and> targetZoom (example_state\<lparr>zoomVelocity := - 1\<rparr>)
         + zoomVelocity (example_state\<lparr>zoomVelocity := - 1\<rparr>) < minZoom CONFIG
   \<and> zoomVelocity (updateZoom CONFIG (example_state\<lparr>zoomVelocity := - 1\<rparr>)) = 0
   \<and> targetZoom (updateZoom CONFIG (example_state\<lparr>zoomVelocity := - 1\<rparr>)) = minZoom CONFIG"
  using C1_zoom_at_least_minZoom
          [of "[Wheel \<lparr>clientX = 10, clientY = 20, deltaY = 3\<rparr>, UpdateZoom, UpdatePan]"
              CONFIG "example_state\<lparr>zoomVelocity := - 1\<rparr>"]
  by (simp add: example_state_def init_def CONFIG_def Let_def)


section \<open>Zoom-dependent factors of the renderer\<close>

lemma clamp_unit_below: "a \<le> 0 \<Longrightarrow> clamp a 0 1 = 0"
  by (simp add: clamp_def)

lemma clamp_unit_above: "1 \<le> a \<Longrightarrow> clamp a 0 1 = 1"
  by (simp add: clamp_def)

lemma clamp_unit_between: "0 \<le> a \<Longrightarrow> a \<le> 1 \<Longrightarrow> clamp a 0 1 = a"
  by (simp add: clamp_def)

lemma ramp_below: "(lo::real) < hi \<Longrightarrow> z \<le> lo \<Longrightarrow> (z - lo) / (hi - lo) \<le> 0"
  by (simp add: divide_le_0_iff)

lemma ramp_above: "(lo::real) < hi \<Longrightarrow> hi \<le> z \<Longrightarrow> 1 \<le> (z - lo) / (hi - lo)"
  by (simp add: le_divide_eq)

lemma ramp_between:
  "(lo::real) < hi \<Longrightarrow> lo \<le> z \<Longrightarrow> z \<le> hi \<Longrightarrow>
     0 \<le> (z - lo) / (hi - lo) \<and> (z - lo) / (hi - lo) \<le> 1"
  by (simp add: divide_le_eq)

lemma visiblePixels_mono:
  assumes "0 \<le> u_planeWidth u" "0 \<le> u_planeHeight u"
    and "0 \<le> u_screenWidth u" "0 \<le> u_screenHeight u"
    and "0 \<le> z1" "z1 \<le> z2"
  shows "visiblePixels (u\<lparr>u_cameraZoom := z1\<rparr>) \<le> visiblePixels (u\<lparr>u_cameraZoom := z2\<rparr>)"
proof -
  have zz: "z1 * z1 \<le> z2 * z2"
    using assms(5,6) by (simp add: mult_mono)
  have a: "0 \<le> u_planeWidth u * u_planeHeight u"
    using assms(1,2) by simp
  have b: "0 \<le> u_screenWidth u * u_screenHeight u"
    using assms(3,4) by simp
  have "(u_planeWidth u * u_planeHeight u) * (z1 * z1) \<le> (u_planeWidth u * u_planeHeight u) * (z2 * z2)"
    using a zz by (rule mult_left_mono [rotated])
  then have "((u_planeWidth u * u_planeHeight u) * (z1 * z1)) * (u_screenWidth u * u_screenHeight u)
      \<le> ((u_planeWidth u * u_planeHeight u) * (z2 * z2)) * (u_screenWidth u * u_screenHeight u)"
    using b by (rule mult_right_mono)
  then show ?thesis
    by (simp add: visiblePixels_def mult.assoc)
qed

text \<open>
  Claim C3. With the screen size, the plane size and the image size fixed (the image
  has at least one pixel, the other sizes are not negative), the sampling rate
  \<open>min 1 (planeWidth * planeHeight * zoom\<^sup>2 * screenWidth * screenHeight / 4 /
  (imageWidth * imageHeight))\<close> does not decrease when the zoom grows from any value at or
  above \<open>minZoom\<close>, and it is exactly \<open>1\<close> whenever the visible-pixel estimate is at
  least the total number of samples.
\<close>

theorem C3_samplingRate_monotone:
  assumes "0 < u_imageWidth u" "0 < u_imageHeight u"
    and "0 \<le> u_planeWidth u" "0 \<le> u_planeHeight u"
    and "0 \<le> u_screenWidth u" "0 \<le> u_screenHeight u"
  shows "(minZoom CONFIG \<le> z1 \<and> z1 \<le> z2 \<longrightarrow>
            samplingRate (u\<lparr>u_cameraZoom := z1\<rparr>) \<le> samplingRate (u\<lparr>u_cameraZoom := z2\<rparr>))
         \<and> (totalPoints (u\<lparr>u_cameraZoom := z\<rparr>) \<le> visiblePixels (u\<lparr>u_cameraZoom := z\<rparr>)
              \<longrightarrow> samplingRate (u\<lparr>u_cameraZoom := z\<rparr>) = 1)
         \<and> samplingRate (u\<lparr>u_cameraZoom := z\<rparr>) =
              min 1 (u_planeWidth u * u_planeHeight u * z\<^sup>2 * u_screenWidth u * u_screenHeight u / 4
                       / (u_imageWidth u * u_imageHeight u))"
proof -
  have tp: "0 < u_imageWidth u * u_imageHeight u"
    using assms(1,2) by simp
  have mono: "samplingRate (u\<lparr>u_cameraZoom := z1\<rparr>) \<le> samplingRate (u\<lparr>u_cameraZoom := z2\<rparr>)"
    if "minZoom CONFIG \<le> z1" "z1 \<le> z2"
  proof -
    have "0 \<le> z1" using that(1) by (simp add: CONFIG_def)
    then have "visiblePixels (u\<lparr>u_cameraZoom := z1\<rparr>) \<le> visiblePixels (u\<lparr>u_cameraZoom := z2\<rparr>)"
      using assms(3-6) that(2) by (simp add: visiblePixels_mono)
    then have "visiblePixels (u\<lparr>u_cameraZoom := z1\<rparr>) / (u_imageWidth u * u_imageHeight u)
        \<le> visiblePixels (u\<lparr>u_cameraZoom := z2\<rparr>) / (u_imageWidth u * u_imageHeight u)"
      using tp by (simp add: divide_right_mono)
    then show ?thesis
      by (simp add: samplingRate_def totalPoints_def min_def)
  qed
  have sat: "samplingRate (u\<lparr>u_cameraZoom := z\<rparr>) = 1"
    if "totalPoints (u\<lparr>u_cameraZoom := z\<rparr>) \<le> visiblePixels (u\<lparr>u_cameraZoom := z\<rparr>)"
  proof -
    have "1 \<le> visiblePixels (u\<lparr>u_cameraZoom := z\<rparr>) / totalPoints (u\<lparr>u_cameraZoom := z\<rparr>)"
      using that tp by (simp add: totalPoints_def le_divide_eq)
    then show ?thesis
      by (simp add: samplingRate_def)
  qed
  have formula: "samplingRate (u\<lparr>u_cameraZoom := z\<rparr>) =
      min 1 (u_planeWidth u * u_planeHeight u * z\<^sup>2 * u_screenWidth u * u_screenHeight u / 4
               / (u_imageWidth u * u_imageHeight u))"
    by (simp add: samplingRate_def visiblePixels_def totalPoints_def power2_eq_square mult.assoc)
  from mono sat formula show ?thesis by blast
qed

theorem C3_samplingRate_monotone_witness:
  "0 < u_imageWidth example_uniforms \<and> 0 < u_imageHeight example_uniforms
   \<and> 0 \<le> u_planeWidth example_uniforms \<and> 0 \<le> u_planeHeight example_uniforms
   \<and> 0 \<le> u_screenWidth example_uniforms \<and> 0 \<le> u_screenHeight example_uniforms
   \<and> minZoom CONFIG \<le> 1 \<and> (1::real) \<le> 2
   \<and> samplingRate (example_uniforms\<lparr>u_cameraZoom := 1\<rparr>)
        \<le> samplingRate (example_uniforms\<lparr>u_cameraZoom := 2\<rparr>)
   \<and> totalPoints (example_uniforms\<lparr>u_cameraZoom := 1\<rparr>)
        \<le> visiblePixels (example_uniforms\<lparr>u_cameraZoom := 1\<rparr>)
   \<and> samplingRate (example_uniforms\<lparr>u_cameraZoom := 1\<rparr>) = 1"
  using C3_samplingRate_monotone [of example_uniforms 1 2 1]
  by (simp add: example_uniforms_def loadImage_uniforms_def example_state_def init_def
        CONFIG_def Let_def totalPoints_def visiblePixels_def)

lemma animate_texturePlane_opacity:
  assumes "texturePlaneFadeStartZoom cfg < texturePlaneFadeEndZoom cfg"
  shows "opacity (animate_texturePlane cfg zoom) =
           (if zoom \<le> texturePlaneFadeStartZoom cfg then 1
            else if texturePlaneFadeEndZoom cfg \<le> zoom then 0
            else 1 - (zoom - texturePlaneFadeStartZoom cfg)
                       / (texturePlaneFadeEndZoom cfg - texturePlaneFadeStartZoom cfg))"
proof -
  let ?lo = "texturePlaneFadeStartZoom cfg" and ?hi = "texturePlaneFadeEndZoom cfg"
  consider "zoom < ?lo" | "zoom = ?lo" | "?lo < zoom" "zoom < ?hi" | "zoom = ?hi" | "?hi < zoom"
    by linarith
  then show ?thesis
  proof cases
    case 1
    then show ?thesis by (simp add: animate_texturePlane_def Let_def)
  next
    case 2
    then show ?thesis using assms by (simp add: animate_texturePlane_def Let_def)
  next
    case 3
    then have "0 \<le> (zoom - ?lo) / (?hi - ?lo) \<and> (zoom - ?lo) / (?hi - ?lo) \<le> 1"
      using assms ramp_between [of ?lo ?hi zoom] by simp
    then show ?thesis using 3 by (simp add: animate_texturePlane_def Let_def)
  next
    case 4
    then show ?thesis using assms by (simp add: animate_texturePlane_def Let_def)
  next
    case 5
    then show ?thesis using assms by (simp add: animate_texturePlane_def Let_def)
  qed
qed

lemma animate_texturePlane_visible:
  "visible (animate_texturePlane cfg zoom) \<longleftrightarrow> opacity (animate_texturePlane cfg zoom) > 0.001"
  by (simp add: animate_texturePlane_def Let_def)

text \<open>
  Claim C6. With the configured fade range (start \<open>4\<close>, end \<open>12\<close>) the opacity of the
  overlay plane is \<open>1\<close> for every zoom up to \<open>4\<close>, \<open>0\<close> for every zoom from \<open>12\<close> on,
  \<open>1 - (zoom - 4) / (12 - 4)\<close> in between, hence \<open>0.5\<close> at zoom \<open>8\<close>; and the plane is
  marked not visible exactly when that opacity is at most \<open>0.001\<close>.
\<close>

theorem C6_overlay_opacity:
  "texturePlaneFadeStartZoom CONFIG = 4 \<and> texturePlaneFadeEndZoom CONFIG = 12
   \<and> (zoom \<le> 4 \<longrightarrow> opacity (animate_texturePlane CONFIG zoom) = 1)
   \<and> (12 \<le> zoom \<longrightarrow> opacity (animate_texturePlane CONFIG zoom) = 0)
   \<and> (4 \<le> zoom \<and> zoom \<le> 12 \<longrightarrow>
         opacity (animate_texturePlane CONFIG zoom) = 1 - (zoom - 4) / (12 - 4))
   \<and> opacity (animate_texturePlane CONFIG 8) = 0.5
   \<and> (\<not> visible (animate_texturePlane CONFIG zoom)
         \<longleftrightarrow> opacity (animate_texturePlane CONFIG zoom) \<le> 0.001)"
proof -
  have c: "texturePlaneFadeStartZoom CONFIG = 4" "texturePlaneFadeEndZoom CONFIG = 12"
    by (simp_all add: CONFIG_def)
  have o: "opacity (animate_texturePlane CONFIG z) =
             (if z \<le> 4 then 1 else if 12 \<le> z then 0 else 1 - (z - 4) / (12 - 4))" for z
    using animate_texturePlane_opacity [of CONFIG z] by (simp add: c)
  have v: "\<not> visible (animate_texturePlane CONFIG zoom)
             \<longleftrightarrow> opacity (animate_texturePlane CONFIG zoom) \<le> 0.001"
    by (simp add: animate_texturePlane_visible not_less)
  have m: "opacity (animate_texturePlane CONFIG 8) = 0.5"
    by (simp add: o)
  have b: "4 \<le> zoom \<and> zoom \<le> 12 \<longrightarrow>
         opacity (animate_texturePlane CONFIG zoom) = 1 - (zoom - 4) / (12 - 4)"
    by (auto simp add: o)
  show ?thesis
    using c v m b by (simp add: o)
qed

theorem C6_overlay_opacity_witness:
  "(3::real) \<le> 4 \<and> opacity (animate_texturePlane CONFIG 3) = 1
   \<and> opacity (animate_texturePlane CONFIG 4) = 1
   \<and> (12::real) \<le> 12 \<and> opacity (animate_texturePlane CONFIG 12) = 0
   \<and> (4::real) \<le> 6 \<and> (6::real) \<le> 12 \<and> opacity (animate_texturePlane CONFIG 6) = 0.75
   \<and> opacity (animate_texturePlane CONFIG 8) = 0.5
   \<and> visible (animate_texturePlane CONFIG 6)
   \<and> \<not> visible (animate_texturePlane CONFIG 12)"
proof -
  have a: "opacity (animate_texturePlane CONFIG 3) = 1"
    using C6_overlay_opacity [of 3] by simp
  have b: "opacity (animate_texturePlane CONFIG 4) = 1"
    using C6_overlay_opacity [of 4] by simp
  have c: "opacity (animate_texturePlane CONFIG 12) = 0"
    using C6_overlay_opacity [of 12] by simp
  have d: "opacity (animate_texturePlane CONFIG 6) = 0.75"
    using C6_overlay_opacity [of 6] by simp
  have e: "opacity (animate_texturePlane CONFIG 8) = 0.5"
    using C6_overlay_opacity [of 8] by simp
  have f: "visible (animate_texturePlane CONFIG 6)"
    using C6_overlay_opacity [of 6] by (simp add: d)
  have g: "\<not> visible (animate_texturePlane CONFIG 12)"
    using C6_overlay_opacity [of 12] by (simp add: c)
  show ?thesis
    using a b c d e f g by simp
qed

lemma displacementFactor_ramp:
  assumes "u_displacementStartZoom u < u_displacementFullZoom u"
  shows "displacementFactor u =
           (if u_cameraZoom u \<le> u_displacementStartZoom u then 0
            else if u_displacementFullZoom u \<le> u_cameraZoom u then 1
            else (u_cameraZoom u - u_displacementStartZoom u)
                   / (u_displacementFullZoom u - u_displacementStartZoom u))"
proof -
  let ?lo = "u_displacementStartZoom u" and ?hi = "u_displacementFullZoom u"
  let ?z = "u_cameraZoom u"
  consider "?z \<le> ?lo" | "?lo < ?z" "?z < ?hi" | "?hi \<le> ?z"
    by linarith
  then show ?thesis
  proof cases
    case 1
    then show ?thesis
      using assms ramp_below [of ?lo ?hi ?z] by (simp add: displacementFactor_def clamp_unit_below)
  next
    case 2
    then show ?thesis
      using assms ramp_between [of ?lo ?hi ?z]
      by (simp add: displacementFactor_def clamp_unit_between)
  next
    case 3
    then show ?thesis
      using assms ramp_above [of ?lo ?hi ?z] by (simp add: displacementFactor_def clamp_unit_above)
  qed
qed

text \<open>
  Claim C7. For the uniforms \<^verbatim>\<open>animate\<close> pushes (the start zoom below the full zoom,
  as configured), the shader's displacement factor is
  \<open>clamp ((zoom - start) / (full - start)) 0 1\<close> for every camera zoom: \<open>0\<close> up to the
  start zoom, \<open>1\<close> from the full zoom on, and linear in between.
\<close>

theorem C7_displacementFactor:
  assumes "displacementStartZoom cfg < displacementFullZoom cfg"
    and "u = animate_uniforms cfg s u0"
  shows "displacementFactor u =
           clamp ((camera_zoom s - displacementStartZoom cfg)
                    / (displacementFullZoom cfg - displacementStartZoom cfg)) 0 1
         \<and> (camera_zoom s \<le> displacementStartZoom cfg \<longrightarrow> displacementFactor u = 0)
         \<and> (displacementFullZoom cfg \<le> camera_zoom s \<longrightarrow> displacementFactor u = 1)
         \<and> (displacementStartZoom cfg \<le> camera_zoom s \<and> camera_zoom s \<le> displacementFullZoom cfg
              \<longrightarrow> displacementFactor u =
                    (camera_zoom s - displacementStartZoom cfg)
                      / (displacementFullZoom cfg - displacementStartZoom cfg))"
proof -
  have u: "u_cameraZoom u = camera_zoom s" "u_displacementStartZoom u = displacementStartZoom cfg"
    "u_displacementFullZoom u = displacementFullZoom cfg"
    by (simp_all add: assms(2) animate_uniforms_def)
  have 1: "displacementFactor u =
           clamp ((camera_zoom s - displacementStartZoom cfg)
                    / (displacementFullZoom cfg - displacementStartZoom cfg)) 0 1"
    by (simp add: displacementFactor_def u)
  have 2: "displacementFactor u =
           (if camera_zoom s \<le> displacementStartZoom cfg then 0
            else if displacementFullZoom cfg \<le> camera_zoom s then 1
            else (camera_zoom s - displacementStartZoom cfg)
                   / (displacementFullZoom cfg - displacementStartZoom cfg))"
    using displacementFactor_ramp [of u] assms(1) by (simp add: u)
  have 3: "camera_zoom s \<le> displacementStartZoom cfg \<longrightarrow> displacementFactor u = 0"
    by (simp add: 2)
  have 4: "displacementFullZoom cfg \<le> camera_zoom s \<longrightarrow> displacementFactor u = 1"
    using assms(1) by (simp add: 2)
  have 5: "displacementStartZoom cfg \<le> camera_zoom s \<and> camera_zoom s \<le> displacementFullZoom cfg
              \<longrightarrow> displacementFactor u =
                    (camera_zoom s - displacementStartZoom cfg)
                      / (displacementFullZoom cfg - displacementStartZoom cfg)"
    using assms(1) by (auto simp add: 2)
  from 1 3 4 5 show ?thesis by blast
qed

theorem C7_displacementFactor_witness:
  "displacementStartZoom CONFIG < displacementFullZoom CONFIG
   \<and> displacementFactor (animate_uniforms CONFIG (example_state\<lparr>camera_zoom := 3\<rparr>) example_uniforms) = 0
   \<and> displacementFactor (animate_uniforms CONFIG (example_state\<lparr>camera_zoom := 2000\<rparr>) example_uniforms) = 1
   \<and> displacementFactor (animate_uniforms CONFIG (example_state\<lparr>camera_zoom := 204\<rparr>) example_uniforms) = 0.2"
proof -
  have h: "displacementStartZoom CONFIG < displacementFullZoom CONFIG"
    by (simp add: CONFIG_def)
  have a: "displacementFactor (animate_uniforms CONFIG (example_state\<lparr>camera_zoom := 3\<rparr>) example_uniforms) = 0"
    using C7_displacementFactor [OF h refl, of "example_state\<lparr>camera_zoom := 3\<rparr>" example_uniforms]
    by (simp add: CONFIG_def)
  have b: "displacementFactor (animate_uniforms CONFIG (example_state\<lparr>camera_zoom := 2000\<rparr>) example_uniforms) = 1"
    using C7_displacementFactor [OF h refl, of "example_state\<lparr>camera_zoom := 2000\<rparr>" example_uniforms]
    by (simp add: CONFIG_def)
  have c: "displacementFactor (animate_uniforms CONFIG (example_state\<lparr>camera_zoom := 204\<rparr>) example_uniforms) = 0.2"
    using C7_displacementFactor [OF h refl, of "example_state\<lparr>camera_zoom := 204\<rparr>" example_uniforms]
    by (simp add: CONFIG_def)
  show ?thesis
    using h a b c by simp
qed


section \<open>Wheel zoom\<close>

lemma mouseWorld_offset:
  "fst (mouseWorld event s) - fst (camera_position s) =
     fst (mouseNDC event s) * (camera_right s - camera_left s) / 2 / camera_zoom s"
  "snd (mouseWorld event s) - snd (camera_position s) =
     snd (mouseNDC event s) * (camera_top s - camera_bottom s) / 2 / camera_zoom s"
  by (simp_all add: mouseWorld_def)

lemma onWheel_zoom_in:
  assumes "deltaY event < 0"
  shows "onWheel cfg event s =
           s\<lparr>zoomVelocity := zoomVelocity s + 1 * zoomStep cfg * camera_zoom s,
             targetPosition :=
               (fst (targetPosition s)
                  + zoomStep cfg * (fst (mouseWorld event s) - fst (camera_position s)),
                snd (targetPosition s)
                  + zoomStep cfg * (snd (mouseWorld event s) - snd (camera_position s)))\<rparr>"
  using assms by (simp add: onWheel_def Let_def)

text \<open>
  Claim C4. A wheel event with \<open>deltaY < 0\<close> (the zoom step being positive) whose cursor
  is at the exact screen centre, normalised device coordinates \<open>(0, 0)\<close>, leaves
  \<open>targetPosition\<close> unchanged. In general it changes \<open>targetPosition\<close> by \<open>zoomStep\<close>
  times (cursor world position minus camera position), a positive multiple, and this
  change is not zero when the cursor is off centre (for a camera with positive zoom and a
  frustum that is not empty). In both cases it adds \<open>direction * zoomStep * zoom\<close>, with
  \<open>direction = 1\<close>, to \<open>zoomVelocity\<close>, and no other state variable is written.
\<close>

theorem C4_wheel_zoom_in:
  assumes "deltaY event < 0" and "0 < zoomStep cfg"
  shows "(mouseNDC event s = (0, 0) \<longrightarrow>
            targetPosition (onWheel cfg event s) = targetPosition s)
         \<and> fst (targetPosition (onWheel cfg event s)) - fst (targetPosition s) =
              zoomStep cfg * (fst (mouseWorld event s) - fst (camera_position s))
         \<and> snd (targetPosition (onWheel cfg event s)) - snd (targetPosition s) =
              zoomStep cfg * (snd (mouseWorld event s) - snd (camera_position s))
         \<and> (mouseNDC event s \<noteq> (0, 0) \<and> 0 < camera_zoom s
              \<and> camera_left s < camera_right s \<and> camera_bottom s < camera_top s
              \<longrightarrow> targetPosition (onWheel cfg event s) \<noteq> targetPosition s)
         \<and> zoomVelocity (onWheel cfg event s) =
              zoomVelocity s + sgn (- deltaY event) * zoomStep cfg * camera_zoom s
         \<and> sgn (- deltaY event) = 1
         \<and> onWheel cfg event s =
              s\<lparr>zoomVelocity := zoomVelocity (onWheel cfg event s),
                targetPosition := targetPosition (onWheel cfg event s)\<rparr>"
proof -
  note w = onWheel_zoom_in [OF assms(1), of cfg s]
  have center: "targetPosition (onWheel cfg event s) = targetPosition s"
    if "mouseNDC event s = (0, 0)"
  proof -
    have "fst (mouseWorld event s) - fst (camera_position s) = 0"
      "snd (mouseWorld event s) - snd (camera_position s) = 0"
      using that by (simp_all add: mouseWorld_offset)
    then show ?thesis
      by (simp add: w)
  qed
  have dx: "fst (targetPosition (onWheel cfg event s)) - fst (targetPosition s) =
              zoomStep cfg * (fst (mouseWorld event s) - fst (camera_position s))"
    by (simp add: w)
  have dy: "snd (targetPosition (onWheel cfg event s)) - snd (targetPosition s) =
              zoomStep cfg * (snd (mouseWorld event s) - snd (camera_position s))"
    by (simp add: w)
  have off: "targetPosition (onWheel cfg event s) \<noteq> targetPosition s"
    if "mouseNDC event s \<noteq> (0, 0)" "0 < camera_zoom s"
      "camera_left s < camera_right s" "camera_bottom s < camera_top s"
  proof -
    from that(1) consider "fst (mouseNDC event s) \<noteq> 0" | "snd (mouseNDC event s) \<noteq> 0"
      by (cases "mouseNDC event s") auto
    then show ?thesis
    proof cases
      case 1
      then have "fst (mouseWorld event s) - fst (camera_position s) \<noteq> 0"
        using that(2,3) by (simp add: mouseWorld_offset)
      then have "fst (targetPosition (onWheel cfg event s)) - fst (targetPosition s) \<noteq> 0"
        using assms(2) by (simp add: dx)
      then show ?thesis by auto
    next
      case 2
      then have "snd (mouseWorld event s) - snd (camera_position s) \<noteq> 0"
        using that(2,4) by (simp add: mouseWorld_offset)
      then have "snd (targetPosition (onWheel cfg event s)) - snd (targetPosition s) \<noteq> 0"
        using assms(2) by (simp add: dy)
      then show ?thesis by auto
    qed
  qed
  have sg: "sgn (- deltaY event) = 1"
    using assms(1) by simp
  have zv: "zoomVelocity (onWheel cfg event s) =
              zoomVelocity s + sgn (- deltaY event) * zoomStep cfg * camera_zoom s"
    using assms(1) by (simp add: w)
  have frame: "onWheel cfg event s =
              s\<lparr>zoomVelocity := zoomVelocity (onWheel cfg event s),
                targetPosition := targetPosition (onWheel cfg event s)\<rparr>"
    by (simp add: w)
  from center dx dy off sg zv frame show ?thesis by blast
qed

theorem C4_wheel_zoom_in_witness:
  "deltaY example_wheel_center < 0 \<and> deltaY example_wheel_corner < 0 \<and> 0 < zoomStep CONFIG
   \<and> mouseNDC example_wheel_center example_state = (0, 0)
   \<and> targetPosition (onWheel CONFIG example_wheel_center example_state)
        = targetPosition example_state
   \<and> mouseNDC example_wheel_corner example_state \<noteq> (0, 0)
   \<and> 0 < camera_zoom example_state
   \<and> camera_left example_state < camera_right example_state
   \<and> camera_bottom example_state < camera_top example_state
   \<and> targetPosition (onWheel CONFIG example_wheel_corner example_state)
        \<noteq> targetPosition example_state
   \<and> zoomVelocity (onWheel CONFIG example_wheel_corner example_state) = 0.02"
proof -
  have h: "deltaY example_wheel_center < 0" "deltaY example_wheel_corner < 0"
    "0 < zoomStep CONFIG"
    by (simp_all add: example_wheel_center_def example_wheel_corner_def CONFIG_def)
  have c: "mouseNDC example_wheel_center example_state = (0, 0)"
    by (simp add: mouseNDC_def example_wheel_center_def example_state_def init_def Let_def)
  have n: "mouseNDC example_wheel_corner example_state \<noteq> (0, 0)"
    by (simp add: mouseNDC_def example_wheel_corner_def example_state_def init_def Let_def)
  have g: "0 < camera_zoom example_state"
    "camera_left example_state < camera_right example_state"
    "camera_bottom example_state < camera_top example_state"
    "zoomVelocity example_state = 0" "camera_zoom example_state = 1"
    by (simp_all add: example_state_def init_def Let_def CONFIG_def)
  have 1: "targetPosition (onWheel CONFIG example_wheel_center example_state)
        = targetPosition example_state"
    using C4_wheel_zoom_in [OF h(1) h(3), of example_state] c by simp
  have 2: "targetPosition (onWheel CONFIG example_wheel_corner example_state)
        \<noteq> targetPosition example_state"
    using C4_wheel_zoom_in [OF h(2) h(3), of example_state] n g by simp
  have 3: "zoomVelocity (onWheel CONFIG example_wheel_corner example_state) = 0.02"
    using C4_wheel_zoom_in [OF h(2) h(3), of example_state] g by (simp add: CONFIG_def)
  show ?thesis
    using h c n g 1 2 3 by simp
qed


section \<open>Displacement stays in the plane\<close>

lemma fract_less_1: "fract a < 1"
  unfolding fract_def by linarith

lemma fract_nonneg: "0 \<le> fract a"
  unfolding fract_def by linarith

lemma samplingRate_one_not_discarded: "samplingRate u = 1 \<Longrightarrow> \<not> discarded u st"
  using fract_less_1 [of "sin (dot2 st (12.9898, 78.233) + u_seed u) * 43758.5453123"]
  by (simp add: discarded_def pointId_def random_def)

lemma displacedPosition_z: "snd (snd (displacedPosition u position)) = snd (snd position)"
  by (cases position) simp

lemma pointSamples_z:
  "sample \<in> set (pointSamples cfg width height) \<Longrightarrow> snd (snd (fst sample)) = 0"
  by (auto simp add: pointSamples_def pointSample_def Let_def)

text \<open>
  Claim C10. For every uniform assignment the displacement changes only the \<open>x\<close> and
  \<open>y\<close> components of a position: the \<open>z\<close> component of the displaced position is the
  \<open>z\<close> component of the sample. Every sample \<^verbatim>\<open>loadImage\<close> builds has \<open>z = 0\<close>, so its
  displaced position has \<open>z = 0\<close>, and a point that is not discarded is handed to the
  projection with \<open>z = 0\<close>.
\<close>

theorem C10_displacement_keeps_z:
  "snd (snd (displacedPosition u position)) = snd (snd position)
   \<and> fst (displacedPosition u position) =
       fst position + randX u position * finalScaledDisplacement u position
   \<and> fst (snd (displacedPosition u position)) =
       fst (snd position) + randY u position * finalScaledDisplacement u position
   \<and> (\<forall>sample \<in> set (pointSamples cfg width height).
        snd (snd (fst sample)) = 0
        \<and> snd (snd (displacedPosition u (fst sample))) = 0
        \<and> (\<not> discarded u (snd sample) \<longrightarrow>
             gl_Position (vertexShader u texture2D transform (fst sample) (snd sample)) =
               transform (fst (displacedPosition u (fst sample)),
                          fst (snd (displacedPosition u (fst sample))), 0, 1)))"
proof -
  have a: "fst (displacedPosition u position) =
       fst position + randX u position * finalScaledDisplacement u position"
    "fst (snd (displacedPosition u position)) =
       fst (snd position) + randY u position * finalScaledDisplacement u position"
    by (cases position; simp)+
  have b: "snd (snd (displacedPosition u (fst sample))) = 0"
    if "sample \<in> set (pointSamples cfg width height)" for sample
    using that by (simp add: displacedPosition_z pointSamples_z)
  have c: "gl_Position (vertexShader u texture2D transform (fst sample) (snd sample)) =
               transform (fst (displacedPosition u (fst sample)),
                          fst (snd (displacedPosition u (fst sample))), 0, 1)"
    if "sample \<in> set (pointSamples cfg width height)" "\<not> discarded u (snd sample)" for sample
  proof -
    obtain px py pz where d: "displacedPosition u (fst sample) = (px, py, pz)"
      by (cases "displacedPosition u (fst sample)") auto
    have "pz = 0" using b [OF that(1)] d by simp
    then show ?thesis
      using that(2) d by (simp add: vertexShader_def Let_def)
  qed
  show ?thesis
    using a b c displacedPosition_z [of u position] pointSamples_z [of _ cfg width height]
    by blast
qed

theorem C10_displacement_keeps_z_witness:
  "((- 1, 0, 0), (1 / 4, 1 / 2)) \<in> set (pointSamples CONFIG 2 1)
   \<and> snd (snd (displacedPosition example_uniforms (- 1, 0, 0))) = 0
   \<and> \<not> discarded example_uniforms (1 / 4, 1 / 2)
   \<and> gl_Position (vertexShader example_uniforms (\<lambda>uv. (0, 0, 0, 1)) (\<lambda>v. v)
                     (- 1, 0, 0) (1 / 4, 1 / 2)) =
        (fst (displacedPosition example_uniforms (- 1, 0, 0)),
         fst (snd (displacedPosition example_uniforms (- 1, 0, 0))), 0, 1)"
proof -
  have m: "((- 1, 0, 0), (1 / 4, 1 / 2)) \<in> set (pointSamples CONFIG 2 1)"
    by (simp add: pointSamples_def pointSample_def Let_def CONFIG_def upt_rec)
  have "samplingRate example_uniforms = 1"
    by (simp add: samplingRate_def visiblePixels_def totalPoints_def example_uniforms_def
          loadImage_uniforms_def example_state_def init_def CONFIG_def Let_def)
  then have d: "\<not> discarded example_uniforms (1 / 4, 1 / 2)"
    by (simp add: samplingRate_one_not_discarded)
  show ?thesis
    using C10_displacement_keeps_z
            [of example_uniforms "(0, 0, 0)" CONFIG 2 1 "\<lambda>uv. (0, 0, 0, 1)" "\<lambda>v. v"] m d
    by fastforce
qed


section \<open>The per-point hash\<close>

lemma animate_uniforms_seed: "u_seed (animate_uniforms cfg s u) = u_seed u"
  by (simp add: animate_uniforms_def)

lemma uniforms_after_seed: "u_seed (uniforms_after cfg cam n u) = u_seed u"
  by (induction n) (simp_all add: animate_uniforms_seed)

lemma random_seed: "u_seed u' = u_seed u \<Longrightarrow> random u' st = random u st"
  by (simp add: random_def)

lemma seed_determines:
  assumes "u_seed u' = u_seed u"
  shows "pointId u' st = pointId u st"
    and "randX u' position = randX u position"
    and "randY u' position = randY u position"
    and "pointSpecificPhaseOffset u' position = pointSpecificPhaseOffset u position"
proof -
  obtain px py pz where p: "position = (px, py, pz)"
    by (cases position) auto
  show "pointId u' st = pointId u st"
    by (simp add: pointId_def random_seed [OF assms])
  show "randX u' position = randX u position"
    by (simp add: p random_seed [OF assms])
  show "randY u' position = randY u position"
    by (simp add: p random_seed [OF assms])
  show "pointSpecificPhaseOffset u' position = pointSpecificPhaseOffset u position"
    by (simp add: pointSpecificPhaseOffset_def random_seed [OF assms])
qed

lemma discarded_seed:
  assumes "u_seed u' = u_seed u" "samplingRate u' = samplingRate u"
  shows "discarded u' st = discarded u st"
  by (simp add: discarded_def seed_determines(1) [OF assms(1)] assms(2))

text \<open>
  Claim C8. The hash \<open>random\<close> is \<open>fract (sin (dot (st, (12.9898, 78.233)) + seed) *
  43758.5453123)\<close>, a function of the coordinate and the seed alone. \<^verbatim>\<open>animate\<close> never
  writes the seed, so after any number of frames the hash of a coordinate is what it
  was. Two uniform assignments with the same seed give every sample the same point id,
  the same displacement direction and the same jitter phase; when their sampling rates
  agree as well, they discard the same samples.
\<close>

theorem C8_hash_deterministic:
  "random u st = fract (sin (dot2 st (12.9898, 78.233) + u_seed u) * 43758.5453123)
   \<and> u_seed (animate_uniforms cfg s u) = u_seed u
   \<and> random (uniforms_after cfg cam n u) st = random u st
   \<and> (u_seed u' = u_seed u \<longrightarrow>
         random u' st = random u st
         \<and> pointId u' st = pointId u st
         \<and> randX u' position = randX u position
         \<and> randY u' position = randY u position
         \<and> pointSpecificPhaseOffset u' position = pointSpecificPhaseOffset u position)
   \<and> (u_seed u' = u_seed u \<and> samplingRate u' = samplingRate u \<longrightarrow>
         discarded u' st = discarded u st)"
proof (intro conjI impI)
  show "random u st = fract (sin (dot2 st (12.9898, 78.233) + u_seed u) * 43758.5453123)"
    by (rule random_def)
  show "u_seed (animate_uniforms cfg s u) = u_seed u"
    by (rule animate_uniforms_seed)
  show "random (uniforms_after cfg cam n u) st = random u st"
    by (rule random_seed) (rule uniforms_after_seed)
next
  assume h: "u_seed u' = u_seed u"
  show "random u' st = random u st"
    by (rule random_seed [OF h])
  show "pointId u' st = pointId u st"
    by (rule seed_determines(1) [OF h])
  show "randX u' position = randX u position"
    by (rule seed_determines(2) [OF h])
  show "randY u' position = randY u position"
    by (rule seed_determines(3) [OF h])
  show "pointSpecificPhaseOffset u' position = pointSpecificPhaseOffset u position"
    by (rule seed_determines(4) [OF h])
next
  assume "u_seed u' = u_seed u \<and> samplingRate u' = samplingRate u"
  then have "u_seed u' = u_seed u" and "samplingRate u' = samplingRate u"
    by (rule conjunct1, rule conjunct2)
  then show "discarded u' st = discarded u st"
    by (rule discarded_seed)
qed

theorem C8_hash_deterministic_witness:
  "u_seed (example_uniforms_zoom 1) = u_seed example_uniforms
   \<and> samplingRate (example_uniforms_zoom 1) = samplingRate example_uniforms
   \<and> random (example_uniforms_zoom 1) (1 / 4, 1 / 2) = random example_uniforms (1 / 4, 1 / 2)
   \<and> randX (example_uniforms_zoom 1) (- 1, 0, 0) = randX example_uniforms (- 1, 0, 0)
   \<and> randY (example_uniforms_zoom 1) (- 1, 0, 0) = randY example_uniforms (- 1, 0, 0)
   \<and> pointSpecificPhaseOffset (example_uniforms_zoom 1) (- 1, 0, 0)
        = pointSpecificPhaseOffset example_uniforms (- 1, 0, 0)
   \<and> discarded (example_uniforms_zoom 1) (1 / 4, 1 / 2)
        = discarded example_uniforms (1 / 4, 1 / 2)"
proof -
  have s: "u_seed (example_uniforms_zoom 1) = u_seed example_uniforms"
    by (simp add: example_uniforms_zoom_def animate_uniforms_def)
  have z: "camera_zoom example_state = 1" "innerWidth example_state = 1000"
    "innerHeight example_state = 500"
    by (simp_all add: example_state_def init_def Let_def)
  have e: "u_cameraZoom example_uniforms = 1" "u_screenWidth example_uniforms = 1000"
    "u_screenHeight example_uniforms = 500"
    by (simp_all add: example_uniforms_def loadImage_uniforms_def Let_def z)
  have r: "samplingRate (example_uniforms_zoom 1) = samplingRate example_uniforms"
    by (simp add: example_uniforms_zoom_def animate_uniforms_def samplingRate_def
          visiblePixels_def totalPoints_def z e)
  note t = C8_hash_deterministic [of example_uniforms "(1 / 4, 1 / 2)" CONFIG example_state
        "\<lambda>n. example_state" 1 "example_uniforms_zoom 1" "(- 1, 0, 0)"]
  from t s have a: "random (example_uniforms_zoom 1) (1 / 4, 1 / 2) = random example_uniforms (1 / 4, 1 / 2)"
    "randX (example_uniforms_zoom 1) (- 1, 0, 0) = randX example_uniforms (- 1, 0, 0)"
    "randY (example_uniforms_zoom 1) (- 1, 0, 0) = randY example_uniforms (- 1, 0, 0)"
    "pointSpecificPhaseOffset (example_uniforms_zoom 1) (- 1, 0, 0)
        = pointSpecificPhaseOffset example_uniforms (- 1, 0, 0)"
    by blast+
  from t s r have d: "discarded (example_uniforms_zoom 1) (1 / 4, 1 / 2)
        = discarded example_uniforms (1 / 4, 1 / 2)"
    by blast
  from s r a d show ?thesis
    by (intro conjI)
qed

section \<open>Brightness boost\<close>

lemma boostFactor_unfold:
  "boostFactor cfg zoom =
     (if zoom \<le> brightnessBoostStartZoom cfg then 0
      else min 1 ((zoom - brightnessBoostStartZoom cfg)
                    / (maxZoomForSizeTransition cfg - brightnessBoostStartZoom cfg)))"
  by (simp add: boostFactor_def Let_def not_less)

lemma boostFactor_le_1: "boostFactor cfg zoom \<le> 1"
  by (simp add: boostFactor_unfold)

lemma boostFactor_ramp:
  assumes "brightnessBoostStartZoom cfg < maxZoomForSizeTransition cfg"
  shows "boostFactor cfg zoom =
           clamp ((zoom - brightnessBoostStartZoom cfg)
                    / (maxZoomForSizeTransition cfg - brightnessBoostStartZoom cfg)) 0 1"
proof (cases "zoom \<le> brightnessBoostStartZoom cfg")
  case True
  then show ?thesis
    using ramp_below [OF assms, of zoom] by (simp add: boostFactor_unfold clamp_unit_below)
next
  case False
  then have "0 \<le> (zoom - brightnessBoostStartZoom cfg)
                    / (maxZoomForSizeTransition cfg - brightnessBoostStartZoom cfg)"
    using assms by simp
  then show ?thesis
    using False by (simp add: boostFactor_unfold clamp_def max_def min.commute)
qed

lemma animate_uniforms_brightnessBoost:
  "u_brightnessBoost (animate_uniforms cfg s u0) =
     (if brightnessBoostEnabled cfg then brightnessBoost cfg * boostFactor cfg (camera_zoom s)
      else 0)"
  by (simp add: animate_uniforms_def)

lemma vertexShader_vColor:
  "vColor (vertexShader u texture2D transform position uv) =
     mix_white (texture2D uv) (impact u (texture2D uv))"
  by (simp add: vertexShader_def Let_def)

lemma mix_white_rgb:
  "rgb (mix_white (r, g, b, a) t) = (r + (1 - r) * t, g + (1 - g) * t, b + (1 - b) * t)"
  by (simp add: mix_def algebra_simps)

lemma impact_unfold:
  "impact u (r, g, b, a) =
     pow (1 - (0.299 * r + 0.587 * g + 0.114 * b)) (u_brightnessSteepness u)
       * clamp (u_brightnessBoost u) 0 1"
  by (simp add: impact_def brightness_def brightenFactor_def Let_def mult.commute)

text \<open>
  Claim C2 states that the boost factor is a linear ramp between the start zoom and
  \<open>maxZoomForSizeTransition\<close> and that the impact is \<open>(1 - brightness) ^ steepness\<close> times
  the boost value. With the configuration of the program (start \<open>10\<close>, end \<open>5\<close>, boost
  strength \<open>-0.05\<close>) the factor is \<open>0\<close> at the end zoom, \<open>-2\<close> at zoom \<open>20\<close> and \<open>-22\<close>
  at zoom \<open>120\<close>; for a black sample the impact is \<open>0.1\<close> at zoom \<open>20\<close>, and \<open>1\<close> at zoom
  \<open>120\<close>, where the uniform is \<open>1.1\<close>: neither the factor nor the uniform times
  \<open>(1 - brightness) ^ steepness\<close>.
\<close>

theorem C2_boost_counterexample:
  "boostFactor CONFIG (maxZoomForSizeTransition CONFIG) = 0
   \<and> boostFactor CONFIG 20 = - 2
   \<and> impact (example_uniforms_zoom 20) (0, 0, 0, 1) = 0.1
   \<and> impact (example_uniforms_zoom 20) (0, 0, 0, 1)
        \<noteq> pow (1 - brightness (0, 0, 0, 1)) (u_brightnessSteepness (example_uniforms_zoom 20))
            * boostFactor CONFIG 20
   \<and> boostFactor CONFIG 120 = - 22
   \<and> u_brightnessBoost (example_uniforms_zoom 120) = 1.1
   \<and> impact (example_uniforms_zoom 120) (0, 0, 0, 1) = 1
   \<and> impact (example_uniforms_zoom 120) (0, 0, 0, 1)
        \<noteq> pow (1 - brightness (0, 0, 0, 1)) (u_brightnessSteepness (example_uniforms_zoom 120))
            * boostFactor CONFIG 120
   \<and> impact (example_uniforms_zoom 120) (0, 0, 0, 1)
        \<noteq> pow (1 - brightness (0, 0, 0, 1)) (u_brightnessSteepness (example_uniforms_zoom 120))
            * u_brightnessBoost (example_uniforms_zoom 120)"
proof -
  have c: "brightnessBoostStartZoom CONFIG = 10" "maxZoomForSizeTransition CONFIG = 5"
    "brightnessBoost CONFIG = - 0.05" "brightnessBoostEnabled CONFIG"
    by (simp_all add: CONFIG_def)
  have f: "boostFactor CONFIG 5 = 0" "boostFactor CONFIG 20 = - 2" "boostFactor CONFIG 120 = - 22"
    by (simp_all add: boostFactor_unfold c)
  have b: "u_brightnessBoost (example_uniforms_zoom 20) = 0.1"
    "u_brightnessBoost (example_uniforms_zoom 120) = 1.1"
    by (simp_all add: example_uniforms_zoom_def animate_uniforms_brightnessBoost c f)
  have p: "pow (1 - brightness (0, 0, 0, 1)) a = 1" for a
    by (simp add: brightness_def pow_def)
  have i: "impact (example_uniforms_zoom 20) (0, 0, 0, 1) = 0.1"
    "impact (example_uniforms_zoom 120) (0, 0, 0, 1) = 1"
    by (simp_all add: impact_def Let_def p brightenFactor_def clamp_def b)
  show ?thesis
    by (simp add: c f b p i)
qed

text \<open>
  Claim C2, amended. The boost factor is \<open>0\<close> at or below the start zoom and
  \<open>min 1 ((zoom - start) / (end - start))\<close> above it, never more than \<open>1\<close>; when the
  start zoom is below \<open>maxZoomForSizeTransition\<close> this is the linear ramp
  \<open>clamp ((zoom - start) / (end - start)) 0 1\<close>. The uniform \<open>brightnessBoost\<close> of a
  frame is the configured boost strength times that factor (\<open>0\<close> when the effect is
  disabled), and the colour of every sample, discarded or not, is blended toward white
  with impact exactly \<open>(1 - brightness) ^ steepness\<close> times the uniform clamped to
  \<open>[0, 1]\<close>, for every zoom and every sample colour.
\<close>

theorem C2_brightness_boost:
  assumes "u = animate_uniforms cfg s u0"
  shows "(zoom \<le> brightnessBoostStartZoom cfg \<longrightarrow> boostFactor cfg zoom = 0)
         \<and> (brightnessBoostStartZoom cfg < zoom \<longrightarrow>
               boostFactor cfg zoom =
                 min 1 ((zoom - brightnessBoostStartZoom cfg)
                          / (maxZoomForSizeTransition cfg - brightnessBoostStartZoom cfg)))
         \<and> boostFactor cfg zoom \<le> 1
         \<and> (brightnessBoostStartZoom cfg < maxZoomForSizeTransition cfg \<longrightarrow>
               boostFactor cfg zoom =
                 clamp ((zoom - brightnessBoostStartZoom cfg)
                          / (maxZoomForSizeTransition cfg - brightnessBoostStartZoom cfg)) 0 1)
         \<and> u_brightnessBoost u =
               (if brightnessBoostEnabled cfg
                then brightnessBoost cfg * boostFactor cfg (camera_zoom s) else 0)
         \<and> impact u (r, g, b, a) =
               pow (1 - (0.299 * r + 0.587 * g + 0.114 * b)) (u_brightnessSteepness u)
                 * clamp (u_brightnessBoost u) 0 1
         \<and> vColor (vertexShader u texture2D transform position uv) =
               mix_white (texture2D uv) (impact u (texture2D uv))
         \<and> rgb (mix_white (r, g, b, a) t) =
               (r + (1 - r) * t, g + (1 - g) * t, b + (1 - b) * t)"
proof (intro conjI impI)
  show "boostFactor cfg zoom = 0" if "zoom \<le> brightnessBoostStartZoom cfg"
    using that by (simp add: boostFactor_unfold)
  show "boostFactor cfg zoom =
          min 1 ((zoom - brightnessBoostStartZoom cfg)
                   / (maxZoomForSizeTransition cfg - brightnessBoostStartZoom cfg))"
    if "brightnessBoostStartZoom cfg < zoom"
    using that by (simp add: boostFactor_unfold)
  show "boostFactor cfg zoom \<le> 1"
    by (rule boostFactor_le_1)
  show "boostFactor cfg zoom =
          clamp ((zoom - brightnessBoostStartZoom cfg)
                   / (maxZoomForSizeTransition cfg - brightnessBoostStartZoom cfg)) 0 1"
    if "brightnessBoostStartZoom cfg < maxZoomForSizeTransition cfg"
    using that by (rule boostFactor_ramp)
  show "u_brightnessBoost u =
          (if brightnessBoostEnabled cfg
           then brightnessBoost cfg * boostFactor cfg (camera_zoom s) else 0)"
    unfolding assms by (rule animate_uniforms_brightnessBoost)
  show "impact u (r, g, b, a) =
          pow (1 - (0.299 * r + 0.587 * g + 0.114 * b)) (u_brightnessSteepness u)
            * clamp (u_brightnessBoost u) 0 1"
    by (rule impact_unfold)
  show "vColor (vertexShader u texture2D transform position uv) =
          mix_white (texture2D uv) (impact u (texture2D uv))"
    by (rule vertexShader_vColor)
  show "rgb (mix_white (r, g, b, a) t) =
          (r + (1 - r) * t, g + (1 - g) * t, b + (1 - b) * t)"
    by (rule mix_white_rgb)
qed

theorem C2_brightness_boost_witness:
  "(1::real) \<le> brightnessBoostStartZoom example_config_ramp
   \<and> boostFactor example_config_ramp 1 = 0
   \<and> brightnessBoostStartZoom example_config_ramp < 7 / 2
   \<and> brightnessBoostStartZoom example_config_ramp < maxZoomForSizeTransition example_config_ramp
   \<and> boostFactor example_config_ramp (7 / 2) = 1 / 2
   \<and> u_brightnessBoost example_uniforms_ramp = 0.5
   \<and> impact example_uniforms_ramp (0, 0, 0, 1) = 0.5
   \<and> vColor (vertexShader example_uniforms_ramp (\<lambda>uv. (0, 0, 0, 1)) (\<lambda>v. v)
                (- 1, 0, 0) (1 / 4, 1 / 2)) = (0.5, 0.5, 0.5, 1)"
proof -
  have c: "brightnessBoostStartZoom example_config_ramp = 2"
    "maxZoomForSizeTransition example_config_ramp = 5"
    "brightnessBoost example_config_ramp = 1" "brightnessBoostEnabled example_config_ramp"
    by (simp_all add: example_config_ramp_def CONFIG_def)
  have st: "u_brightnessSteepness example_uniforms_ramp = 4"
    by (simp add: example_uniforms_ramp_def animate_uniforms_def example_uniforms_def
          loadImage_uniforms_def Let_def CONFIG_def)
  note t1 = C2_brightness_boost [OF refl, of 1 example_config_ramp
              "example_state\<lparr>camera_zoom := 7 / 2\<rparr>" example_uniforms 0 0 0 1
              "\<lambda>uv. (0, 0, 0, 1)" "\<lambda>v. v" "(- 1, 0, 0)" "(1 / 4, 1 / 2)" "1 / 2"]
  note t2 = C2_brightness_boost [OF refl, of "7 / 2" example_config_ramp
              "example_state\<lparr>camera_zoom := 7 / 2\<rparr>" example_uniforms 0 0 0 1
              "\<lambda>uv. (0, 0, 0, 1)" "\<lambda>v. v" "(- 1, 0, 0)" "(1 / 4, 1 / 2)" "1 / 2", folded example_uniforms_ramp_def]
  have f1: "boostFactor example_config_ramp 1 = 0"
    using t1 by (simp add: c)
  have f2: "boostFactor example_config_ramp (7 / 2) = 1 / 2"
    using t2 by (simp add: c clamp_def)
  have b: "u_brightnessBoost example_uniforms_ramp = 0.5"
    using t2 by (simp add: c f2)
  have i: "impact example_uniforms_ramp (0, 0, 0, 1) = 0.5"
    using t2 by (simp add: b st pow_def clamp_def)
  have v: "vColor (vertexShader example_uniforms_ramp (\<lambda>uv. (0, 0, 0, 1)) (\<lambda>v. v)
                (- 1, 0, 0) (1 / 4, 1 / 2)) = (0.5, 0.5, 0.5, 1)"
    using t2 by (simp add: i mix_def)
  show ?thesis
    using f1 f2 b i v by (simp add: c)
qed


section \<open>Auto-zoom bounds and reversals\<close>

lemma updateAutoZoom_unfold:
  assumes "autoZoomEnabled cfg" "\<not> isDragging s"
  shows "updateAutoZoom cfg r now1 now2 now3 s =
           autoZoom_clamp cfg (autoZoom_velocity cfg now1 now2 now3
             (autoZoom_limits cfg (autoZoom_smooth (autoZoom_changeDirection cfg r s))))"
  using assms by (simp add: updateAutoZoom_def)

lemma autoZoom_clamp_targetZoom:
  assumes "autoZoomMinLevel cfg \<le> autoZoomMaxLevel cfg"
  shows "autoZoomMinLevel cfg \<le> targetZoom (autoZoom_clamp cfg s)"
    and "targetZoom (autoZoom_clamp cfg s) \<le> autoZoomMaxLevel cfg"
  using assms by (simp_all add: autoZoom_clamp_def)

lemma autoZoom_changeDirection_fields:
  "targetAutoZoomDirection (autoZoom_changeDirection cfg r s) =
     (if r < autoZoomChangeRate cfg then - targetAutoZoomDirection s
      else targetAutoZoomDirection s)"
  "autoZoomDirection (autoZoom_changeDirection cfg r s) = autoZoomDirection s"
  "camera_zoom (autoZoom_changeDirection cfg r s) = camera_zoom s"
  by (simp_all add: autoZoom_changeDirection_def)

lemma autoZoom_smooth_fields:
  "targetAutoZoomDirection (autoZoom_smooth s) = targetAutoZoomDirection s"
  "autoZoomDirection (autoZoom_smooth s) =
     autoZoomDirection s + (targetAutoZoomDirection s - autoZoomDirection s) * 0.1"
  "camera_zoom (autoZoom_smooth s) = camera_zoom s"
  by (simp_all add: autoZoom_smooth_def)

lemma autoZoom_limits_fields:
  "targetAutoZoomDirection (autoZoom_limits cfg s) =
     (if (camera_zoom s \<ge> autoZoomMaxLevel cfg \<and> autoZoomDirection s > 0) \<or>
         (camera_zoom s \<le> autoZoomMinLevel cfg \<and> autoZoomDirection s < 0)
      then - targetAutoZoomDirection s else targetAutoZoomDirection s)"
  "autoZoomDirection (autoZoom_limits cfg s) = autoZoomDirection s"
  "camera_zoom (autoZoom_limits cfg s) = camera_zoom s"
  by (simp_all add: autoZoom_limits_def)

lemma autoZoom_tail_fields:
  "targetAutoZoomDirection (autoZoom_clamp cfg (autoZoom_velocity cfg now1 now2 now3 s)) =
     targetAutoZoomDirection s"
  "autoZoomDirection (autoZoom_clamp cfg (autoZoom_velocity cfg now1 now2 now3 s)) =
     autoZoomDirection s"
  by (simp_all add: autoZoom_clamp_def autoZoom_velocity_def Let_def)

lemma updateAutoZoom_autoZoomDirection:
  assumes "autoZoomEnabled cfg" "\<not> isDragging s"
  shows "autoZoomDirection (updateAutoZoom cfg r now1 now2 now3 s) =
           autoZoomDirection s
             + ((if r < autoZoomChangeRate cfg then - targetAutoZoomDirection s
                 else targetAutoZoomDirection s) - autoZoomDirection s) * 0.1"
  by (simp only: updateAutoZoom_unfold [OF assms] autoZoom_tail_fields autoZoom_limits_fields
        autoZoom_smooth_fields autoZoom_changeDirection_fields)

lemma updateAutoZoom_targetAutoZoomDirection:
  assumes "autoZoomEnabled cfg" "\<not> isDragging s"
  shows "targetAutoZoomDirection (updateAutoZoom cfg r now1 now2 now3 s) =
           (if (camera_zoom s \<ge> autoZoomMaxLevel cfg
                  \<and> autoZoomDirection (updateAutoZoom cfg r now1 now2 now3 s) > 0) \<or>
               (camera_zoom s \<le> autoZoomMinLevel cfg
                  \<and> autoZoomDirection (updateAutoZoom cfg r now1 now2 now3 s) < 0)
            then - (if r < autoZoomChangeRate cfg then - targetAutoZoomDirection s
                    else targetAutoZoomDirection s)
            else (if r < autoZoomChangeRate cfg then - targetAutoZoomDirection s
                  else targetAutoZoomDirection s))"
  by (simp only: updateAutoZoom_autoZoomDirection [OF assms] updateAutoZoom_unfold [OF assms]
        autoZoom_tail_fields autoZoom_limits_fields
        autoZoom_smooth_fields autoZoom_changeDirection_fields)

text \<open>
  Claim C9 states that the target zoom direction is negated by every call made at a
  bound with the smoothed direction pointing toward it. In the initial state the camera
  zoom is \<open>1\<close>, the lower auto-zoom bound, and both directions are \<open>-1\<close>. With the
  random draw \<open>0\<close>, below the change rate, the call first reverses the target direction
  to \<open>1\<close>, the smoothed direction becomes \<open>-0.8\<close>, still toward the bound, and the limit
  check reverses the target direction again: it ends the call at \<open>-1\<close>, its value at
  entry, not the negation of it.
\<close>

theorem C9_flip_counterexample:
  "autoZoomEnabled CONFIG \<and> \<not> isDragging example_state
   \<and> camera_zoom example_state \<le> autoZoomMinLevel CONFIG
   \<and> autoZoomDirection example_state < 0
   \<and> autoZoomDirection (updateAutoZoom CONFIG 0 16 16 16 example_state) < 0
   \<and> targetAutoZoomDirection example_state = - 1
   \<and> targetAutoZoomDirection (updateAutoZoom CONFIG 0 16 16 16 example_state) = - 1
   \<and> targetAutoZoomDirection (updateAutoZoom CONFIG 0 16 16 16 example_state)
        \<noteq> - targetAutoZoomDirection example_state"
proof -
  have c: "autoZoomEnabled CONFIG" "autoZoomMinLevel CONFIG = 1" "autoZoomMaxLevel CONFIG = 80"
    "autoZoomChangeRate CONFIG = 0.001"
    by (simp_all add: CONFIG_def)
  have e: "\<not> isDragging example_state" "camera_zoom example_state = 1"
    "autoZoomDirection example_state = - 1" "targetAutoZoomDirection example_state = - 1"
    by (simp_all add: example_state_def init_def Let_def)
  have d: "autoZoomDirection (updateAutoZoom CONFIG 0 16 16 16 example_state) = - 0.8"
    by (simp add: updateAutoZoom_autoZoomDirection [OF c(1) e(1)] c e)
  have t: "targetAutoZoomDirection (updateAutoZoom CONFIG 0 16 16 16 example_state) = - 1"
    by (simp add: updateAutoZoom_targetAutoZoomDirection [OF c(1) e(1)] d c e)
  show ?thesis
    by (simp add: c e d t)
qed

text \<open>
  Claim C9, amended. After every \<open>updateAutoZoom\<close> call with auto-zoom enabled and no
  drag in progress (the lower bound not above the upper), the target zoom lies within
  \<open>[autoZoomMinLevel, autoZoomMaxLevel]\<close>. Whenever the camera zoom is at or beyond a
  bound while the direction smoothed by this call points toward that bound, the target
  zoom direction ends the call as the negation of \<open>t\<close>, its value after the random
  reversal step of the same call: the negation of its value at entry when the draw is
  not below the change rate, and its value at entry when it is. Otherwise it ends the
  call as \<open>t\<close>.
\<close>

theorem C9_autoZoom_bounds_and_flip:
  assumes "autoZoomEnabled cfg" and "\<not> isDragging s"
    and "autoZoomMinLevel cfg \<le> autoZoomMaxLevel cfg"
    and "s' = updateAutoZoom cfg r now1 now2 now3 s"
    and "t = (if r < autoZoomChangeRate cfg then - targetAutoZoomDirection s
              else targetAutoZoomDirection s)"
  shows "autoZoomMinLevel cfg \<le> targetZoom s' \<and> targetZoom s' \<le> autoZoomMaxLevel cfg
         \<and> autoZoomDirection s' = autoZoomDirection s + (t - autoZoomDirection s) * 0.1
         \<and> ((autoZoomMaxLevel cfg \<le> camera_zoom s \<and> 0 < autoZoomDirection s') \<or>
             (camera_zoom s \<le> autoZoomMinLevel cfg \<and> autoZoomDirection s' < 0)
              \<longrightarrow> targetAutoZoomDirection s' = - t)
         \<and> (\<not> ((autoZoomMaxLevel cfg \<le> camera_zoom s \<and> 0 < autoZoomDirection s') \<or>
                (camera_zoom s \<le> autoZoomMinLevel cfg \<and> autoZoomDirection s' < 0))
              \<longrightarrow> targetAutoZoomDirection s' = t)"
proof -
  have z: "autoZoomMinLevel cfg \<le> targetZoom s'" "targetZoom s' \<le> autoZoomMaxLevel cfg"
    unfolding assms(4) updateAutoZoom_unfold [OF assms(1,2)]
    by (rule autoZoom_clamp_targetZoom [OF assms(3)])+
  have d: "autoZoomDirection s' = autoZoomDirection s + (t - autoZoomDirection s) * 0.1"
    unfolding assms(4,5) by (rule updateAutoZoom_autoZoomDirection [OF assms(1,2)])
  have f: "targetAutoZoomDirection s' =
             (if (autoZoomMaxLevel cfg \<le> camera_zoom s \<and> 0 < autoZoomDirection s') \<or>
                 (camera_zoom s \<le> autoZoomMinLevel cfg \<and> autoZoomDirection s' < 0)
              then - t else t)"
    unfolding assms(4,5) by (rule updateAutoZoom_targetAutoZoomDirection [OF assms(1,2)])
  show ?thesis
    using z d by (simp add: f)
qed

theorem C9_autoZoom_bounds_and_flip_witness:
  "autoZoomEnabled CONFIG \<and> \<not> isDragging example_state
   \<and> autoZoomMinLevel CONFIG \<le> autoZoomMaxLevel CONFIG
   \<and> autoZoomMinLevel CONFIG \<le> targetZoom (updateAutoZoom CONFIG (1 / 2) 16 16 16 example_state)
   \<and> targetZoom (updateAutoZoom CONFIG (1 / 2) 16 16 16 example_state) \<le> autoZoomMaxLevel CONFIG
   \<and> camera_zoom example_state \<le> autoZoomMinLevel CONFIG
   \<and> autoZoomDirection (updateAutoZoom CONFIG (1 / 2) 16 16 16 example_state) < 0
   \<and> targetAutoZoomDirection (updateAutoZoom CONFIG (1 / 2) 16 16 16 example_state)
        = - targetAutoZoomDirection example_state
   \<and> \<not> camera_zoom (example_state\<lparr>camera_zoom := 2\<rparr>) \<le> autoZoomMinLevel CONFIG
   \<and> \<not> autoZoomMaxLevel CONFIG \<le> camera_zoom (example_state\<lparr>camera_zoom := 2\<rparr>)
   \<and> targetAutoZoomDirection
         (updateAutoZoom CONFIG (1 / 2) 16 16 16 (example_state\<lparr>camera_zoom := 2\<rparr>))
        = targetAutoZoomDirection example_state"
proof -
  have c: "autoZoomEnabled CONFIG" "autoZoomMinLevel CONFIG = 1" "autoZoomMaxLevel CONFIG = 80"
    "autoZoomChangeRate CONFIG = 0.001" "autoZoomMinLevel CONFIG \<le> autoZoomMaxLevel CONFIG"
    by (simp_all add: CONFIG_def)
  have e: "\<not> isDragging example_state" "camera_zoom example_state = 1"
    "autoZoomDirection example_state = - 1" "targetAutoZoomDirection example_state = - 1"
    by (simp_all add: example_state_def init_def Let_def)
  have e2: "\<not> isDragging (example_state\<lparr>camera_zoom := 2\<rparr>)"
    by (simp add: e)
  note a = C9_autoZoom_bounds_and_flip [OF c(1) e(1) c(5) refl refl, of "1 / 2" 16 16 16]
  note b = C9_autoZoom_bounds_and_flip [OF c(1) e2 c(5) refl refl, of "1 / 2" 16 16 16]
  have 1: "autoZoomMinLevel CONFIG \<le> targetZoom (updateAutoZoom CONFIG (1 / 2) 16 16 16 example_state)"
    "targetZoom (updateAutoZoom CONFIG (1 / 2) 16 16 16 example_state) \<le> autoZoomMaxLevel CONFIG"
    using a by simp_all
  have 2: "autoZoomDirection (updateAutoZoom CONFIG (1 / 2) 16 16 16 example_state) = - 1"
    using a by (simp add: c e)
  have 3: "targetAutoZoomDirection (updateAutoZoom CONFIG (1 / 2) 16 16 16 example_state)
        = - targetAutoZoomDirection example_state"
    using a by (simp add: c e 2)
  have 4: "targetAutoZoomDirection
         (updateAutoZoom CONFIG (1 / 2) 16 16 16 (example_state\<lparr>camera_zoom := 2\<rparr>))
        = targetAutoZoomDirection example_state"
    using b by (simp add: c e)
  show ?thesis
    using 1 2 3 4 by (simp add: c e)
qed

section \<open>A zoom impulse followed by 50 ticks\<close>

lemma CONFIG_zoom: "minZoom CONFIG = 0.1" "zoomDamping CONFIG = 0.05"
  by (simp_all add: CONFIG_def)

lemma ticks_1:
  assumes "camera_zoom s = 1" "targetZoom s = 1" "zoomVelocity s = 0.02"
  shows "targetZoom (updateZoom CONFIG s) = 1.02"
    and "zoomVelocity (updateZoom CONFIG s) = 0.001"
    and "camera_zoom (updateZoom CONFIG s) = 1.004"
proof -
  show t: "targetZoom (updateZoom CONFIG s) = 1.02"
    by (simp add: updateZoom_targetZoom assms CONFIG_zoom)
  show "zoomVelocity (updateZoom CONFIG s) = 0.001"
    by (simp add: updateZoom_zoomVelocity assms CONFIG_zoom)
  show "camera_zoom (updateZoom CONFIG s) = 1.004"
    by (simp add: updateZoom_camera_zoom [of CONFIG s] t assms CONFIG_zoom)
qed

lemma ticks_2:
  assumes "camera_zoom s = 1" "targetZoom s = 1" "zoomVelocity s = 0.02"
  shows "targetZoom (updateZoom CONFIG (updateZoom CONFIG s)) = 1.021"
    and "zoomVelocity (updateZoom CONFIG (updateZoom CONFIG s)) = 0.00005"
    and "camera_zoom (updateZoom CONFIG (updateZoom CONFIG s)) = 1.0074"
proof -
  note 1 = ticks_1 [OF assms]
  show t: "targetZoom (updateZoom CONFIG (updateZoom CONFIG s)) = 1.021"
    by (simp add: updateZoom_targetZoom [of CONFIG "updateZoom CONFIG s"] 1 CONFIG_zoom)
  show "zoomVelocity (updateZoom CONFIG (updateZoom CONFIG s)) = 0.00005"
    by (simp add: updateZoom_zoomVelocity [of CONFIG "updateZoom CONFIG s"] 1 CONFIG_zoom)
  show "camera_zoom (updateZoom CONFIG (updateZoom CONFIG s)) = 1.0074"
    by (simp add: updateZoom_camera_zoom [of CONFIG "updateZoom CONFIG s"] t 1 CONFIG_zoom)
qed

lemma ticks_closed_form:
  assumes "camera_zoom s = 1" "targetZoom s = 1" "zoomVelocity s = 0.02"
  shows "targetZoom (updateZoom_ticks CONFIG (k + 2) s) = 1.021
         \<and> zoomVelocity (updateZoom_ticks CONFIG (k + 2) s) = (if k = 0 then 0.00005 else 0)
         \<and> camera_zoom (updateZoom_ticks CONFIG (k + 2) s) = 1.021 - 0.0136 * 0.8 ^ k"
proof (induction k)
  case 0
  show ?case
    using ticks_2 [OF assms] by (simp add: numeral_2_eq_2)
next
  case (Suc k)
  let ?p = "updateZoom_ticks CONFIG (k + 2) s"
  have st: "updateZoom_ticks CONFIG (Suc k + 2) s = updateZoom CONFIG ?p"
    by simp
  have v: "\<not> \<bar>zoomVelocity ?p\<bar> > 0.0001"
    using Suc.IH by (simp split: if_splits)
  have t: "targetZoom (updateZoom CONFIG ?p) = 1.021"
    using Suc.IH v by (simp add: updateZoom_targetZoom)
  have z: "zoomVelocity (updateZoom CONFIG ?p) = 0"
    using v by (simp add: updateZoom_zoomVelocity)
  have p: "(0.8::real) ^ k \<le> 1"
    by (simp add: power_le_one)
  have "camera_zoom (updateZoom CONFIG ?p) =
          max 0.1 (camera_zoom ?p + (1.021 - camera_zoom ?p) * 0.2)"
    by (simp only: updateZoom_camera_zoom [of CONFIG ?p] t CONFIG_zoom)
  also have "camera_zoom ?p + (1.021 - camera_zoom ?p) * 0.2 = 1.021 - 0.0136 * 0.8 ^ Suc k"
    using Suc.IH by (simp add: algebra_simps)
  also have "max 0.1 (1.021 - 0.0136 * 0.8 ^ Suc k) = 1.021 - 0.0136 * (0.8::real) ^ Suc k"
    using p by (simp add: max_def)
  finally have c: "camera_zoom (updateZoom CONFIG ?p) = 1.021 - 0.0136 * 0.8 ^ Suc k" .
  show ?case
    unfolding st using t z c by simp
qed

lemma ticks_from_2:
  assumes "camera_zoom s = 1" "targetZoom s = 1" "zoomVelocity s = 0.02" and "2 \<le> n"
  shows "targetZoom (updateZoom_ticks CONFIG n s) = 1.021"
    and "zoomVelocity (updateZoom_ticks CONFIG n s) = (if n = 2 then 0.00005 else 0)"
    and "camera_zoom (updateZoom_ticks CONFIG n s) = 1.021 - 0.0136 * 0.8 ^ (n - 2)"
proof -
  from assms(4) obtain k where n: "n = k + 2"
    by (metis add.commute le_Suc_ex)
  note c = ticks_closed_form [OF assms(1-3), of k]
  show "targetZoom (updateZoom_ticks CONFIG n s) = 1.021"
    unfolding n using c by blast
  show "zoomVelocity (updateZoom_ticks CONFIG n s) = (if n = 2 then 0.00005 else 0)"
    unfolding n using c by simp
  show "camera_zoom (updateZoom_ticks CONFIG n s) = 1.021 - 0.0136 * 0.8 ^ (n - 2)"
    unfolding n using c by simp
qed

lemma ticks_increasing:
  assumes "camera_zoom s = 1" "targetZoom s = 1" "zoomVelocity s = 0.02"
  shows "camera_zoom (updateZoom_ticks CONFIG n s)
           < camera_zoom (updateZoom_ticks CONFIG (Suc n) s)"
proof -
  consider "n = 0" | "n = 1" | "2 \<le> n"
    by linarith
  then show ?thesis
  proof cases
    case 1
    then show ?thesis
      using ticks_1 [OF assms] by (simp add: assms)
  next
    case 2
    then show ?thesis
      using ticks_1 [OF assms] ticks_2 [OF assms] by simp
  next
    case 3
    then have s: "Suc n - 2 = Suc (n - 2)"
      by simp
    have "(0.8::real) ^ Suc (n - 2) < 0.8 ^ (n - 2)"
      by simp
    then show ?thesis
      using 3 by (simp only: ticks_from_2(3) [OF assms] le_SucI s) simp
  qed
qed

lemma ticks_ge_1:
  assumes "camera_zoom s = 1" "targetZoom s = 1" "zoomVelocity s = 0.02"
  shows "1 \<le> camera_zoom (updateZoom_ticks CONFIG n s)"
proof (induction n)
  case 0
  show ?case by (simp add: assms)
next
  case (Suc n)
  then show ?case
    using ticks_increasing [OF assms, of n] by linarith
qed

text \<open>
  Claim C5 states that the zoom sequence stabilizes once the zoom velocity falls below
  the threshold. From zoom \<open>1\<close>, target \<open>1\<close> and velocity \<open>0.02\<close> the velocity is
  \<open>0.00005\<close> after the second tick and zeroed by the third, but the zoom goes on
  changing: it is \<open>1.01012\<close> after tick 3, \<open>1.012296\<close> after tick 4, and still grows
  from tick 49 to tick 50. Of its rise from \<open>1\<close> to more than \<open>1.02\<close>, only the part up to
  \<open>1.0074\<close> has happened when the velocity falls below the threshold.
\<close>

theorem C5_not_stable_counterexample:
  "camera_zoom example_state_impulse = 1 \<and> targetZoom example_state_impulse = 1
   \<and> zoomVelocity example_state_impulse = 0.02
   \<and> \<bar>zoomVelocity (updateZoom_ticks CONFIG 2 example_state_impulse)\<bar> < 0.0001
   \<and> zoomVelocity (updateZoom_ticks CONFIG 3 example_state_impulse) = 0
   \<and> camera_zoom (updateZoom_ticks CONFIG 3 example_state_impulse) = 1.01012
   \<and> camera_zoom (updateZoom_ticks CONFIG 4 example_state_impulse) = 1.012296
   \<and> camera_zoom (updateZoom_ticks CONFIG 49 example_state_impulse)
        < camera_zoom (updateZoom_ticks CONFIG 50 example_state_impulse)
   \<and> camera_zoom (updateZoom_ticks CONFIG 2 example_state_impulse) = 1.0074
   \<and> 1.02 < camera_zoom (updateZoom_ticks CONFIG 50 example_state_impulse)"
proof -
  have i: "camera_zoom example_state_impulse = 1" "targetZoom example_state_impulse = 1"
    "zoomVelocity example_state_impulse = 0.02"
    by (simp_all add: example_state_impulse_def example_state_def init_def Let_def)
  have z2: "camera_zoom (updateZoom_ticks CONFIG 2 example_state_impulse) = 1.0074"
    using ticks_from_2(3) [OF i, of 2] by simp
  have "camera_zoom (updateZoom_ticks CONFIG 50 example_state_impulse)
          = 1.021 - 0.0136 * 0.8 ^ 48"
    using ticks_from_2(3) [OF i, of 50] by simp
  then have z50v: "1.02 < camera_zoom (updateZoom_ticks CONFIG 50 example_state_impulse)"
    by (simp add: power_divide)
  have v2: "zoomVelocity (updateZoom_ticks CONFIG 2 example_state_impulse) = 0.00005"
    using ticks_from_2(2) [OF i, of 2] by simp
  have v3: "zoomVelocity (updateZoom_ticks CONFIG 3 example_state_impulse) = 0"
    using ticks_from_2(2) [OF i, of 3] by simp
  have z3: "camera_zoom (updateZoom_ticks CONFIG 3 example_state_impulse) = 1.01012"
    using ticks_from_2(3) [OF i, of 3] by simp
  have z4: "camera_zoom (updateZoom_ticks CONFIG 4 example_state_impulse) = 1.012296"
    using ticks_from_2(3) [OF i, of 4] by (simp add: power2_eq_square)
  have z50: "camera_zoom (updateZoom_ticks CONFIG 49 example_state_impulse)
        < camera_zoom (updateZoom_ticks CONFIG (Suc 49) example_state_impulse)"
    by (rule ticks_increasing [OF i])
  have "Suc 49 = 50" by simp
  then have z50': "camera_zoom (updateZoom_ticks CONFIG 49 example_state_impulse)
        < camera_zoom (updateZoom_ticks CONFIG 50 example_state_impulse)"
    using z50 by (simp only:)
  from i v2 v3 z3 z4 z50' z2 z50v show ?thesis
    by simp
qed

text \<open>
  Claim C5, amended. Starting from zoom \<open>1\<close>, target zoom \<open>1\<close> and zoom velocity \<open>0.02\<close>,
  with damping \<open>0.05\<close> and \<open>minZoom = 0.1\<close>, consecutive \<open>updateZoom\<close> ticks yield a zoom
  sequence that is strictly increasing at every tick, so monotonically non-decreasing.
  The velocity is \<open>0.00005\<close>, below the threshold, after the second tick and zero from
  the third on; from the second tick on the target zoom stays at \<open>1.021\<close>, and the zoom
  stays below it while its distance to it shrinks by the factor \<open>0.8\<close> per tick, to less
  than \<open>10\<^sup>-\<^sup>6\<close> after 50 ticks. The zoom after 50 ticks is strictly greater than \<open>1\<close>,
  and the zoom is never below \<open>minZoom\<close>.
\<close>

theorem C5_zoom_impulse_50_ticks:
  assumes "camera_zoom s = 1" and "targetZoom s = 1" and "zoomVelocity s = 0.02"
  shows "minZoom CONFIG = 0.1 \<and> zoomDamping CONFIG = 0.05
         \<and> (\<forall>n. camera_zoom (updateZoom_ticks CONFIG n s)
                    < camera_zoom (updateZoom_ticks CONFIG (Suc n) s))
         \<and> zoomVelocity (updateZoom_ticks CONFIG 2 s) = 0.00005
         \<and> (\<forall>n. 3 \<le> n \<longrightarrow> zoomVelocity (updateZoom_ticks CONFIG n s) = 0)
         \<and> (\<forall>n. 2 \<le> n \<longrightarrow> targetZoom (updateZoom_ticks CONFIG n s) = 1.021)
         \<and> (\<forall>n. 2 \<le> n \<longrightarrow>
                camera_zoom (updateZoom_ticks CONFIG n s) < 1.021
                \<and> 1.021 - camera_zoom (updateZoom_ticks CONFIG (Suc n) s)
                    = 0.8 * (1.021 - camera_zoom (updateZoom_ticks CONFIG n s)))
         \<and> 1 < camera_zoom (updateZoom_ticks CONFIG 50 s)
         \<and> 1.021 - camera_zoom (updateZoom_ticks CONFIG 50 s) < 1 / 10 ^ 6
         \<and> (\<forall>n. minZoom CONFIG \<le> camera_zoom (updateZoom_ticks CONFIG n s))"
proof -
  note f = ticks_from_2 [OF assms]
  have inc: "\<forall>n. camera_zoom (updateZoom_ticks CONFIG n s)
                    < camera_zoom (updateZoom_ticks CONFIG (Suc n) s)"
    using ticks_increasing [OF assms] by blast
  have v2: "zoomVelocity (updateZoom_ticks CONFIG 2 s) = 0.00005"
    using f(2) [of 2] by simp
  have v: "\<forall>n. 3 \<le> n \<longrightarrow> zoomVelocity (updateZoom_ticks CONFIG n s) = 0"
  proof (intro allI impI)
    fix n :: nat assume "3 \<le> n"
    then have "2 \<le> n" "n \<noteq> 2" by simp_all
    then show "zoomVelocity (updateZoom_ticks CONFIG n s) = 0"
      using f(2) [of n] by simp
  qed
  have t: "\<forall>n. 2 \<le> n \<longrightarrow> targetZoom (updateZoom_ticks CONFIG n s) = 1.021"
    using f(1) by blast
  have g: "\<forall>n. 2 \<le> n \<longrightarrow>
                camera_zoom (updateZoom_ticks CONFIG n s) < 1.021
                \<and> 1.021 - camera_zoom (updateZoom_ticks CONFIG (Suc n) s)
                    = 0.8 * (1.021 - camera_zoom (updateZoom_ticks CONFIG n s))"
  proof (intro allI impI)
    fix n :: nat assume n: "2 \<le> n"
    then have s: "Suc n - 2 = Suc (n - 2)" "2 \<le> Suc n"
      by simp_all
    have a: "camera_zoom (updateZoom_ticks CONFIG n s) = 1.021 - 0.0136 * 0.8 ^ (n - 2)"
      by (rule f(3) [OF n])
    have b: "camera_zoom (updateZoom_ticks CONFIG (Suc n) s)
               = 1.021 - 0.0136 * 0.8 ^ Suc (n - 2)"
      using f(3) [OF s(2)] by (simp only: s(1))
    have p: "0 < (0.8::real) ^ (n - 2)"
      by simp
    show "camera_zoom (updateZoom_ticks CONFIG n s) < 1.021
                \<and> 1.021 - camera_zoom (updateZoom_ticks CONFIG (Suc n) s)
                    = 0.8 * (1.021 - camera_zoom (updateZoom_ticks CONFIG n s))"
      unfolding a b using p by simp
  qed
  have z50: "camera_zoom (updateZoom_ticks CONFIG 50 s) = 1.021 - 0.0136 * 0.8 ^ 48"
    using f(3) [of 50] by simp
  have e: "1.021 - camera_zoom (updateZoom_ticks CONFIG 50 s) < 1 / 10 ^ 6"
    unfolding z50 by (simp add: power_divide)
  have l: "1 \<le> camera_zoom (updateZoom_ticks CONFIG n s)" for n
    by (rule ticks_ge_1 [OF assms])
  have one: "1 < camera_zoom (updateZoom_ticks CONFIG 50 s)"
    unfolding z50 by (simp add: power_divide)
  have m: "\<forall>n. minZoom CONFIG \<le> camera_zoom (updateZoom_ticks CONFIG n s)"
  proof
    fix n show "minZoom CONFIG \<le> camera_zoom (updateZoom_ticks CONFIG n s)"
      using l [of n] by (simp add: CONFIG_zoom)
  qed
  from inc v2 v t g one e m show ?thesis
    by (simp only: CONFIG_zoom) blast
qed

theorem C5_zoom_impulse_50_ticks_witness:
  "camera_zoom example_state_impulse = 1 \<and> targetZoom example_state_impulse = 1
   \<and> zoomVelocity example_state_impulse = 0.02
   \<and> camera_zoom (updateZoom_ticks CONFIG 49 example_state_impulse)
        < camera_zoom (updateZoom_ticks CONFIG (Suc 49) example_state_impulse)
   \<and> (3::nat) \<le> 3 \<and> zoomVelocity (updateZoom_ticks CONFIG 3 example_state_impulse) = 0
   \<and> (2::nat) \<le> 50 \<and> targetZoom (updateZoom_ticks CONFIG 50 example_state_impulse) = 1.021
   \<and> camera_zoom (updateZoom_ticks CONFIG 50 example_state_impulse) < 1.021
   \<and> 1 < camera_zoom (updateZoom_ticks CONFIG 50 example_state_impulse)
   \<and> minZoom CONFIG \<le> camera_zoom (updateZoom_ticks CONFIG 50 example_state_impulse)"
proof -
  have i: "camera_zoom example_state_impulse = 1" "targetZoom example_state_impulse = 1"
    "zoomVelocity example_state_impulse = 0.02"
    by (simp_all add: example_state_impulse_def example_state_def init_def Let_def)
  have n: "(3::nat) \<le> 3" "(2::nat) \<le> 50"
    by simp_all
  note t = C5_zoom_impulse_50_ticks [OF i]
  from t have a: "camera_zoom (updateZoom_ticks CONFIG 49 example_state_impulse)
        < camera_zoom (updateZoom_ticks CONFIG (Suc 49) example_state_impulse)"
    by blast
  from t n(1) have b: "zoomVelocity (updateZoom_ticks CONFIG 3 example_state_impulse) = 0"
    by blast
  from t n(2) have c: "targetZoom (updateZoom_ticks CONFIG 50 example_state_impulse) = 1.021"
    by blast
  from t n(2) have d: "camera_zoom (updateZoom_ticks CONFIG 50 example_state_impulse) < 1.021"
    by blast
  from t have e: "1 < camera_zoom (updateZoom_ticks CONFIG 50 example_state_impulse)"
    by blast
  from t have f: "minZoom CONFIG \<le> camera_zoom (updateZoom_ticks CONFIG 50 example_state_impulse)"
    by blast
  from i n a b c d e f show ?thesis
    by (intro conjI)
qed

end
